theory Spec2Isabelle
  imports Complex_Main "HOL-Library.AList" "HOL-Library.Sublist"
begin

section \<open>Values, documents and the Python primitives the handlers rely on\<close>

text \<open>
  The handlers of \<^verbatim>\<open>main.py\<close> work on MongoDB documents, which are Python dictionaries.
  A dictionary is an association list in insertion order: \<open>map_of\<close> is \<^verbatim>\<open>d.get(k)\<close>,
  \<open>AList.update\<close> is \<^verbatim>\<open>d[k] = v\<close> (in place when the key exists, appended otherwise) and
  \<open>AList.delete\<close> removes a key as \<^verbatim>\<open>d.pop(k)\<close> does.

  A \<^verbatim>\<open>bson.ObjectId\<close> is represented by the text \<^verbatim>\<open>str\<close> prints for it, the lower-case
  hexadecimal digits of its bytes.
\<close>

datatype oid = Oid string

datatype date = Date int nat nat

datatype 'n val =
    VNull
  | VBool bool
  | VNum 'n
  | VStr string
  | VOid oid
  | VDate date
  | VList "'n val list"
  | VDoc "(string \<times> 'n val) list"

type_synonym 'n doc = "(string \<times> 'n val) list"

text \<open>
  Exceptions are values. \<open>HTTPException\<close> carries the status code and the detail text;
  \<open>ValidationError\<close> is the rejection of a request body by its schema, and the other
  constructors are the Python exceptions that escape the handlers on ill-typed stored data. \<open>RegexNotModelled\<close> is not an exception of the program: it marks a search
  pattern outside the fragment of regular expressions given a meaning below.
\<close>

datatype error =
    HTTPException nat string
  | TypeError
  | AttributeError
  | ValueError
  | ValidationError
  | RegexNotModelled

text \<open>
  Python's \<^verbatim>\<open>float\<close> is IEEE double arithmetic. Its operations are a parameter of the
  model, so every theorem holds for whatever the interpreter computes: \<open>fzero\<close> is
  \<^verbatim>\<open>0.0\<close>, \<open>fone\<close> is \<^verbatim>\<open>1.0\<close>, \<open>fadd\<close> and \<open>fmul\<close> are \<^verbatim>\<open>+\<close> and \<^verbatim>\<open>*\<close>, \<open>fround2 x\<close> is
  \<^verbatim>\<open>round(x, 2)\<close>, \<open>fle\<close> and \<open>flt\<close> are \<^verbatim>\<open><=\<close> and \<^verbatim>\<open><\<close>, \<open>fparse\<close> is \<^verbatim>\<open>float\<close> on a
  string (\<open>None\<close> when it raises) and \<open>repr\<close> is \<^verbatim>\<open>str\<close> on the values that are neither
  strings nor identifiers.
\<close>

record 'n pyfloat =
  fzero :: 'n
  fone :: 'n
  fadd :: "'n \<Rightarrow> 'n \<Rightarrow> 'n"
  fmul :: "'n \<Rightarrow> 'n \<Rightarrow> 'n"
  fround2 :: "'n \<Rightarrow> 'n"
  fle :: "'n \<Rightarrow> 'n \<Rightarrow> bool"
  flt :: "'n \<Rightarrow> 'n \<Rightarrow> bool"
  fparse :: "string \<Rightarrow> 'n option"
  repr :: "'n val \<Rightarrow> string"

text \<open>Truth value testing, as \<^verbatim>\<open>if x:\<close> does it.\<close>

fun truthy :: "'n pyfloat \<Rightarrow> 'n val \<Rightarrow> bool" where
  "truthy ops VNull = False"
| "truthy ops (VBool b) = b"
| "truthy ops (VNum x) = (x \<noteq> fzero ops)"
| "truthy ops (VStr s) = (s \<noteq> [])"
| "truthy ops (VOid k) = True"
| "truthy ops (VDate d) = True"
| "truthy ops (VList xs) = (xs \<noteq> [])"
| "truthy ops (VDoc d) = (d \<noteq> [])"

text \<open>\<^verbatim>\<open>str(x)\<close>: an identifier prints as its hexadecimal text, a string is itself.\<close>

fun hex_of :: "oid \<Rightarrow> string" where
  "hex_of (Oid h) = h"

fun py_str :: "'n pyfloat \<Rightarrow> 'n val \<Rightarrow> string" where
  "py_str ops (VOid k) = hex_of k"
| "py_str ops (VStr s) = s"
| "py_str ops v = repr ops v"

text \<open>\<^verbatim>\<open>float(x)\<close>: the identity on a number, 1.0 and 0.0 on the booleans, parsing on a
  string (\<^verbatim>\<open>ValueError\<close> when it does not parse), \<^verbatim>\<open>TypeError\<close> on anything else.\<close>

fun py_float :: "'n pyfloat \<Rightarrow> 'n val \<Rightarrow> error + 'n" where
  "py_float ops (VNum x) = Inr x"
| "py_float ops (VBool b) = Inr (if b then fone ops else fzero ops)"
| "py_float ops (VStr s) = (case fparse ops s of None \<Rightarrow> Inl ValueError | Some x \<Rightarrow> Inr x)"
| "py_float ops v = Inl TypeError"

subsection \<open>The identifier codec\<close>

text \<open>
  A character of a text stands for one Unicode code point, as in a Python string; the type
  \<open>char\<close> covers the code points below 256.
\<close>

definition is_hex :: "char \<Rightarrow> bool" where
  "is_hex c = (c \<in> set ''0123456789abcdefABCDEF'')"

definition is_space :: "char \<Rightarrow> bool" where
  "is_space c = (c \<in> set [CHR 0x20, CHR 0x09, CHR 0x0A, CHR 0x0B, CHR 0x0C, CHR 0x0D])"

text \<open>The lower-case form of a hexadecimal digit, as \<^verbatim>\<open>str\<close> of an identifier prints it.\<close>

definition lower :: "char \<Rightarrow> char" where
  "lower c =
     (case map_of (zip ''ABCDEFGHIJKLMNOPQRSTUVWXYZ'' ''abcdefghijklmnopqrstuvwxyz'') c of
        Some l \<Rightarrow> l
      | None \<Rightarrow> c)"

text \<open>
  \<^verbatim>\<open>bytes.fromhex\<close>: two hexadecimal digits per byte, ASCII whitespace skipped before a
  byte; \<open>None\<close> is the \<^verbatim>\<open>ValueError\<close>. The bytes are kept as their lower-case digits.
\<close>

fun fromhex :: "string \<Rightarrow> string option" where
  "fromhex [] = Some []"
| "fromhex [c] = (if is_space c then Some [] else None)"
| "fromhex (c # d # rest) =
     (if is_space c then fromhex (d # rest)
      else if is_hex c \<and> is_hex d then
        (case fromhex rest of None \<Rightarrow> None | Some h \<Rightarrow> Some (lower c # lower d # h))
      else None)"

text \<open>
  \<^verbatim>\<open>ObjectId(x)\<close> of the bson library: a string must have 24 characters that
  \<^verbatim>\<open>bytes.fromhex\<close> accepts (\<open>ObjectId_str\<close>), an identifier is copied, any other value
  raises. \<open>None\<close> stands for the raised \<^verbatim>\<open>InvalidId\<close> or \<^verbatim>\<open>TypeError\<close>. The handlers never
  pass Python's \<^verbatim>\<open>None\<close>, for which the library would mint a fresh identifier.
\<close>

definition ObjectId_str :: "string \<Rightarrow> oid option" where
  "ObjectId_str s =
     (if length s = 24 then (case fromhex s of None \<Rightarrow> None | Some h \<Rightarrow> Some (Oid h))
      else None)"

fun ObjectId :: "'n val \<Rightarrow> oid option" where
  "ObjectId (VStr s) = ObjectId_str s"
| "ObjectId (VOid k) = Some k"
| "ObjectId v = None"

text \<open>\<^verbatim>\<open>oid\<close> of \<^verbatim>\<open>main.py\<close>: every exception of the constructor becomes the 400 error.\<close>

definition oid :: "'n val \<Rightarrow> error + oid" where
  "oid id_str =
     (case ObjectId id_str of
        Some k \<Rightarrow> Inr k
      | None \<Rightarrow> Inl (HTTPException 400 ''Ogiltigt ID''))"

subsection \<open>Serialization\<close>

text \<open>
  The body of the loop of \<^verbatim>\<open>serialize\<close>: \<^verbatim>\<open>item.get\<close> exists on a dictionary only, and the
  reference is rewritten only when it is an \<^verbatim>\<open>ObjectId\<close>.
\<close>

definition serialize_item :: "'n pyfloat \<Rightarrow> 'n val \<Rightarrow> error + 'n val" where
  "serialize_item ops item =
     (case item of
        VDoc d \<Rightarrow>
          (case map_of d ''material_id'' of
             Some (VOid k) \<Rightarrow>
               Inr (VDoc (AList.update ''material_id'' (VStr (py_str ops (VOid k))) d))
           | _ \<Rightarrow> Inr item)
      | _ \<Rightarrow> Inl AttributeError)"

fun serialize_items :: "'n pyfloat \<Rightarrow> 'n val list \<Rightarrow> error + 'n val list" where
  "serialize_items ops [] = Inr []"
| "serialize_items ops (item # rest) =
     (case serialize_item ops item of
        Inl e \<Rightarrow> Inl e
      | Inr item' \<Rightarrow>
          (case serialize_items ops rest of
             Inl e \<Rightarrow> Inl e
           | Inr rest' \<Rightarrow> Inr (item' # rest')))"

text \<open>
  \<^verbatim>\<open>serialize\<close>. Iterating a string or a dictionary yields strings, which have no
  \<^verbatim>\<open>get\<close>; the remaining truthy values are not iterable.
\<close>

definition serialize :: "'n pyfloat \<Rightarrow> 'n doc \<Rightarrow> error + 'n doc" where
  "serialize ops doc0 =
     (let doc = (case map_of doc0 ''_id'' of
                   Some v \<Rightarrow> AList.update ''id'' (VStr (py_str ops v)) (AList.delete ''_id'' doc0)
                 | None \<Rightarrow> doc0)
      in case map_of doc ''items'' of
           None \<Rightarrow> Inr doc
         | Some v \<Rightarrow>
             if truthy ops v then
               (case v of
                  VList its \<Rightarrow>
                    (case serialize_items ops its of
                       Inl e \<Rightarrow> Inl e
                     | Inr its' \<Rightarrow> Inr (AList.update ''items'' (VList its') doc))
                | VStr s \<Rightarrow> Inl AttributeError
                | VDoc d \<Rightarrow> Inl AttributeError
                | _ \<Rightarrow> Inl TypeError)
             else Inr doc)"

text \<open>Sequencing of two steps that may raise.\<close>

definition bind_err :: "error + 'a \<Rightarrow> ('a \<Rightarrow> error + 'b) \<Rightarrow> error + 'b" where
  "bind_err r f = (case r of Inl e \<Rightarrow> Inl e | Inr x \<Rightarrow> f x)"


section \<open>The schemas of \<^verbatim>\<open>schemas.py\<close>\<close>

record 'n OrderItem =
  material_id :: string
  quantity :: 'n
  unit_price :: "'n option"

record 'n Order =
  customer_id :: string
  installer_id :: "string option"
  items :: "'n OrderItem list"
  status :: string
  scheduled_date :: "date option"
  total' :: "'n option"
  notes' :: "string option"

text \<open>
  Building a model validates the constraints of its fields (\<^verbatim>\<open>gt=0\<close>, \<^verbatim>\<open>ge=0\<close>) and fills in
  the defaults of the fields the request leaves out. For a field with a default, the
  argument \<open>None\<close> means that the request has no such field.
\<close>

definition new_OrderItem ::
  "'n pyfloat \<Rightarrow> string \<Rightarrow> 'n \<Rightarrow> 'n option \<Rightarrow> error + 'n OrderItem" where
  "new_OrderItem ops mid q up =
     (if flt ops (fzero ops) q \<and> (case up of None \<Rightarrow> True | Some p \<Rightarrow> fle ops (fzero ops) p)
      then Inr \<lparr>material_id = mid, quantity = q, unit_price = up\<rparr>
      else Inl ValidationError)"

definition new_Order ::
  "'n pyfloat \<Rightarrow> string \<Rightarrow> string option \<Rightarrow> 'n OrderItem list option \<Rightarrow> string option \<Rightarrow>
     date option \<Rightarrow> 'n option \<Rightarrow> string option \<Rightarrow> error + 'n Order" where
  "new_Order ops cid iid its st sd tot nts =
     (if (case tot of None \<Rightarrow> True | Some t \<Rightarrow> fle ops (fzero ops) t)
      then Inr \<lparr>customer_id = cid,
                installer_id = iid,
                items = (case its of None \<Rightarrow> [] | Some xs \<Rightarrow> xs),
                status = (case st of None \<Rightarrow> ''ny'' | Some s \<Rightarrow> s),
                scheduled_date = sd,
                total' = tot,
                notes' = nts\<rparr>
      else Inl ValidationError)"

section \<open>The document store\<close>

text \<open>
  The database maps a collection name to its documents, in insertion order.
  \<^verbatim>\<open>find_one({"_id": k})\<close> returns the first document with that identifier.
\<close>

type_synonym 'n database = "string \<Rightarrow> 'n doc list"

definition find_one :: "'n doc list \<Rightarrow> oid \<Rightarrow> 'n doc option" where
  "find_one coll k = find (\<lambda>d. map_of d ''_id'' = Some (VOid k)) coll"

text \<open>
  The filters the handlers build: \<open>Eq f v\<close> is \<^verbatim>\<open>{f: v}\<close>, \<open>RegexI f p\<close> is
  \<^verbatim>\<open>{f: {"$regex": p, "$options": "i"}}\<close> and \<open>Or cs\<close> is \<^verbatim>\<open>{"$or": cs}\<close>. A filter
  dictionary is the list of its entries, all of which must hold.
\<close>

datatype 'n cond =
    Eq string "'n val"
  | RegexI string string
  | Or "'n cond list"

type_synonym 'n filter_dict = "'n cond list"

text \<open>
  The store reads a \<^verbatim>\<open>$regex\<close> pattern as a Perl-compatible regular expression and
  searches the field for it anywhere. The model gives a meaning to the patterns made of
  ordinary characters and the dot: an ordinary character matches the characters of its
  case class (option \<^verbatim>\<open>i\<close>), the dot matches any character but the line feed. A pattern
  with any other metacharacter, or with the null character, which a pattern cannot hold,
  is outside the model (\<open>regex_meta\<close> is true of these characters and of the dot). The case classes are the store's: its
  case folding is the parameter \<open>cfold\<close>, and two characters are in one class when they fold
  to the same character.
\<close>

definition regex_meta :: "char \<Rightarrow> bool" where
  "regex_meta c = (c \<in> set (CHR 0x00 # CHR 0x5C # ''^$.[]|()?*+{}''))"

definition regex_modelled :: "string \<Rightarrow> bool" where
  "regex_modelled p = list_all (\<lambda>c. c = CHR ''.'' \<or> \<not> regex_meta c) p"

definition regex_char :: "(char \<Rightarrow> char) \<Rightarrow> char \<Rightarrow> char \<Rightarrow> bool" where
  "regex_char cfold p c = (if p = CHR ''.'' then c \<noteq> CHR 0x0A else cfold p = cfold c)"

fun regex_here :: "(char \<Rightarrow> char) \<Rightarrow> string \<Rightarrow> string \<Rightarrow> bool" where
  "regex_here cfold [] s = True"
| "regex_here cfold (p # ps) [] = False"
| "regex_here cfold (p # ps) (c # cs) = (regex_char cfold p c \<and> regex_here cfold ps cs)"

fun regex_search :: "(char \<Rightarrow> char) \<Rightarrow> string \<Rightarrow> string \<Rightarrow> bool" where
  "regex_search cfold p [] = regex_here cfold p []"
| "regex_search cfold p (c # cs) = (regex_here cfold p (c # cs) \<or> regex_search cfold p cs)"

fun cond_modelled :: "'n cond \<Rightarrow> bool" where
  "cond_modelled (Eq f v) = True"
| "cond_modelled (RegexI f p) = regex_modelled p"
| "cond_modelled (Or cs) = list_all cond_modelled cs"

text \<open>
  Whether a document satisfies a condition. A null operand also matches a missing field;
  a pattern matches string fields only.
\<close>

fun matches :: "(char \<Rightarrow> char) \<Rightarrow> 'n doc \<Rightarrow> 'n cond \<Rightarrow> bool" where
  "matches cfold d (Eq f v) = (map_of d f = Some v \<or> (v = VNull \<and> map_of d f = None))"
| "matches cfold d (RegexI f p) =
     (case map_of d f of Some (VStr s) \<Rightarrow> regex_search cfold p s | _ \<Rightarrow> False)"
| "matches cfold d (Or cs) = list_ex (matches cfold d) cs"

text \<open>
  Modelled from the spec: \<^verbatim>\<open>get_documents\<close> of the module \<^verbatim>\<open>database\<close>, which is not among
  the sources. The Document Store Gateway's \<^verbatim>\<open>find(collectionName, filter)\<close> returns the
  documents of the collection that satisfy the filter, in the store's order, with no
  transformation. The first argument is the store's case folding.
\<close>

definition get_documents ::
  "(char \<Rightarrow> char) \<Rightarrow> string \<Rightarrow> 'n filter_dict \<Rightarrow> 'n database \<Rightarrow> error + 'n doc list" where
  "get_documents cfold collection_name filter_dict db =
     (if list_all cond_modelled filter_dict
      then Inr (filter (\<lambda>d. list_all (matches cfold d) filter_dict) (db collection_name))
      else Inl RegexNotModelled)"

text \<open>The dictionary a model is stored as: one entry per field, \<^verbatim>\<open>None\<close> as null.\<close>

definition opt_val :: "('a \<Rightarrow> 'n val) \<Rightarrow> 'a option \<Rightarrow> 'n val" where
  "opt_val f x = (case x of None \<Rightarrow> VNull | Some y \<Rightarrow> f y)"

definition OrderItem_dump :: "'n OrderItem \<Rightarrow> 'n doc" where
  "OrderItem_dump it =
     [(''material_id'', VStr (material_id it)),
      (''quantity'', VNum (quantity it)),
      (''unit_price'', opt_val VNum (unit_price it))]"

definition Order_dump :: "'n Order \<Rightarrow> 'n doc" where
  "Order_dump p =
     [(''customer_id'', VStr (customer_id p)),
      (''installer_id'', opt_val VStr (installer_id p)),
      (''items'', VList (map (\<lambda>it. VDoc (OrderItem_dump it)) (items p))),
      (''status'', VStr (status p)),
      (''scheduled_date'', opt_val VDate (scheduled_date p)),
      (''total'', opt_val VNum (total' p)),
      (''notes'', opt_val VStr (notes' p))]"

text \<open>
  Modelled from the spec: \<^verbatim>\<open>create_document\<close> of the module \<^verbatim>\<open>database\<close>, which is not
  among the sources. The Gateway's \<^verbatim>\<open>insert(collectionName, document)\<close> stores the document
  under a generated identifier and returns that identifier as text. The identifier the
  store generates is the argument \<open>new_id\<close>.
\<close>

definition create_document ::
  "oid \<Rightarrow> string \<Rightarrow> 'n doc \<Rightarrow> 'n database \<Rightarrow> string \<times> 'n database" where
  "create_document new_id collection_name data db =
     (hex_of new_id,
      db(collection_name := db collection_name @ [(''_id'', VOid new_id) # data]))"

section \<open>The handlers of \<^verbatim>\<open>main.py\<close>\<close>

subsection \<open>Customers\<close>

fun serialize_all :: "'n pyfloat \<Rightarrow> 'n doc list \<Rightarrow> error + 'n doc list" where
  "serialize_all ops [] = Inr []"
| "serialize_all ops (d # ds) =
     (case serialize ops d of
        Inl e \<Rightarrow> Inl e
      | Inr d' \<Rightarrow>
          (case serialize_all ops ds of
             Inl e \<Rightarrow> Inl e
           | Inr ds' \<Rightarrow> Inr (d' # ds')))"

definition list_customers ::
  "'n pyfloat \<Rightarrow> (char \<Rightarrow> char) \<Rightarrow> string option \<Rightarrow> 'n database \<Rightarrow> error + 'n doc list" where
  "list_customers ops cfold q db =
     (let filter_q =
        (case q of
           None \<Rightarrow> []
         | Some s \<Rightarrow> if s \<noteq> [] then [Or [RegexI ''name'' s, RegexI ''company'' s]] else [])
      in case get_documents cfold ''customer'' filter_q db of
           Inl e \<Rightarrow> Inl e
         | Inr docs \<Rightarrow> serialize_all ops docs)"

subsection \<open>Orders\<close>

text \<open>
  The price the loop of \<^verbatim>\<open>create_order\<close> uses for an item: the item's own when it has
  one; otherwise \<^verbatim>\<open>float(mat.get("price", 0))\<close> of the material found under the decoded
  \<^verbatim>\<open>material_id\<close>, with the 400 of \<^verbatim>\<open>oid\<close> and the 404 of a missing material as errors.
\<close>

definition item_price :: "'n pyfloat \<Rightarrow> 'n database \<Rightarrow> 'n OrderItem \<Rightarrow> error + 'n" where
  "item_price ops db item =
     (case unit_price item of
        Some p \<Rightarrow> Inr p
      | None \<Rightarrow>
          (case oid (VStr (material_id item) :: 'n val) of
             Inl e \<Rightarrow> Inl e
           | Inr k \<Rightarrow>
               (case find_one (db ''material'') k of
                  None \<Rightarrow> Inl (HTTPException 404 (''Material saknas: '' @ material_id item))
                | Some mat \<Rightarrow>
                    if mat = [] then
                      Inl (HTTPException 404 (''Material saknas: '' @ material_id item))
                    else
                      py_float ops
                        (case map_of mat ''price'' of
                           None \<Rightarrow> VNum (fzero ops)
                         | Some v \<Rightarrow> v))))"

text \<open>
  The loop over the items, with the running total: it returns the items with their prices
  filled in and the sum, or the first exception.
\<close>

fun price_items ::
  "'n pyfloat \<Rightarrow> 'n database \<Rightarrow> 'n OrderItem list \<Rightarrow> 'n \<Rightarrow> error + ('n OrderItem list \<times> 'n)" where
  "price_items ops db [] tot = Inr ([], tot)"
| "price_items ops db (item # rest) tot =
     (case item_price ops db item of
        Inl e \<Rightarrow> Inl e
      | Inr p \<Rightarrow>
          (case price_items ops db rest (fadd ops tot (fmul ops p (quantity item))) of
             Inl e \<Rightarrow> Inl e
           | Inr (rest', tot') \<Rightarrow> Inr (item\<lparr>unit_price := Some p\<rparr> # rest', tot')))"

definition create_order ::
  "'n pyfloat \<Rightarrow> oid \<Rightarrow> 'n Order \<Rightarrow> 'n database \<Rightarrow> (error + 'n doc) \<times> 'n database" where
  "create_order ops new_id payload db =
     (case price_items ops db (items payload) (fzero ops) of
        Inl e \<Rightarrow> (Inl e, db)
      | Inr (its, tot) \<Rightarrow>
          (let payload' = payload\<lparr>items := its, total' := Some (fround2 ops tot)\<rparr>;
               (inserted_id, db') = create_document new_id ''order'' (Order_dump payload') db
           in (Inr [(''id'', VStr inserted_id), (''total'', opt_val VNum (total' payload'))], db')))"

text \<open>
  One reference of a listed order: \<^verbatim>\<open>find_one\<close> on the decoded identifier when the field
  is truthy, Python's \<^verbatim>\<open>None\<close> otherwise; then the name of what was found.
\<close>

definition lookup_ref ::
  "'n pyfloat \<Rightarrow> 'n doc list \<Rightarrow> 'n doc \<Rightarrow> string \<Rightarrow> error + 'n doc option" where
  "lookup_ref ops coll d field =
     (case map_of d field of
        None \<Rightarrow> Inr None
      | Some v \<Rightarrow>
          if truthy ops v then
            (case oid v of Inl e \<Rightarrow> Inl e | Inr k \<Rightarrow> Inr (find_one coll k))
          else Inr None)"

definition name_of :: "'n doc option \<Rightarrow> 'n val" where
  "name_of found =
     (case found of
        None \<Rightarrow> VNull
      | Some c \<Rightarrow>
          if c \<noteq> [] then (case map_of c ''name'' of None \<Rightarrow> VNull | Some v \<Rightarrow> v) else VNull)"

definition enrich :: "'n pyfloat \<Rightarrow> 'n database \<Rightarrow> 'n doc \<Rightarrow> error + 'n doc" where
  "enrich ops db d =
     (case lookup_ref ops (db ''customer'') d ''customer_id'' of
        Inl e \<Rightarrow> Inl e
      | Inr cust \<Rightarrow>
          (case lookup_ref ops (db ''installer'') d ''installer_id'' of
             Inl e \<Rightarrow> Inl e
           | Inr inst \<Rightarrow>
               (case serialize ops d of
                  Inl e \<Rightarrow> Inl e
                | Inr doc_serial \<Rightarrow>
                    Inr (AList.update ''installer_name'' (name_of inst)
                          (AList.update ''customer_name'' (name_of cust) doc_serial)))))"

fun enrich_all :: "'n pyfloat \<Rightarrow> 'n database \<Rightarrow> 'n doc list \<Rightarrow> error + 'n doc list" where
  "enrich_all ops db [] = Inr []"
| "enrich_all ops db (d # ds) =
     (case enrich ops db d of
        Inl e \<Rightarrow> Inl e
      | Inr d' \<Rightarrow>
          (case enrich_all ops db ds of
             Inl e \<Rightarrow> Inl e
           | Inr ds' \<Rightarrow> Inr (d' # ds')))"

definition list_orders ::
  "'n pyfloat \<Rightarrow> (char \<Rightarrow> char) \<Rightarrow> string option \<Rightarrow> string option \<Rightarrow> 'n database \<Rightarrow>
     error + 'n doc list" where
  "list_orders ops cfold status_q customer_id_q db =
     (let filter_q =
        (case status_q of
           None \<Rightarrow> []
         | Some s \<Rightarrow> if s \<noteq> [] then [Eq ''status'' (VStr s)] else []) @
        (case customer_id_q of
           None \<Rightarrow> []
         | Some c \<Rightarrow> if c \<noteq> [] then [Eq ''customer_id'' (VStr c)] else [])
      in case get_documents cfold ''order'' filter_q db of
           Inl e \<Rightarrow> Inl e
         | Inr docs \<Rightarrow> enrich_all ops db docs)"

section \<open>Notions used to state the properties\<close>

text \<open>
  The sum of price times quantity over the lines of an order, in the order of the lines
  and in the arithmetic of the interpreter, starting from \<open>acc\<close>.
\<close>

fun sum_lines :: "'n pyfloat \<Rightarrow> 'n \<Rightarrow> ('n \<times> 'n) list \<Rightarrow> 'n" where
  "sum_lines ops acc [] = acc"
| "sum_lines ops acc ((p, q) # rest) = sum_lines ops (fadd ops acc (fmul ops p q)) rest"

definition order_total :: "'n pyfloat \<Rightarrow> 'n list \<Rightarrow> 'n OrderItem list \<Rightarrow> 'n" where
  "order_total ops ps its = fround2 ops (sum_lines ops (fzero ops) (zip ps (map quantity its)))"

text \<open>The response of a successful \<^verbatim>\<open>create_order\<close> and the document it stores.\<close>

definition order_response :: "oid \<Rightarrow> 'n \<Rightarrow> 'n doc" where
  "order_response new_id t = [(''id'', VStr (hex_of new_id)), (''total'', VNum t)]"

definition stored_order :: "oid \<Rightarrow> 'n Order \<Rightarrow> 'n doc" where
  "stored_order new_id p = (''_id'', VOid new_id) # Order_dump p"

text \<open>An item resolves when the loop finds a price for it.\<close>

definition resolves :: "'n pyfloat \<Rightarrow> 'n database \<Rightarrow> 'n OrderItem \<Rightarrow> bool" where
  "resolves ops db item = (case item_price ops db item of Inl e \<Rightarrow> False | Inr p \<Rightarrow> True)"

text \<open>
  Two items that differ at most in the \<^verbatim>\<open>material_id\<close> of an item that carries its own
  price.
\<close>

definition same_but_priced_ref :: "'n OrderItem \<Rightarrow> 'n OrderItem \<Rightarrow> bool" where
  "same_but_priced_ref a b =
     (case unit_price a of
        None \<Rightarrow> b = a
      | Some p \<Rightarrow> b = a\<lparr>material_id := material_id b\<rparr>)"

text \<open>
  Containment of a text in a string field of a document, up to the case folding \<open>cfold\<close>.
\<close>

definition field_contains :: "(char \<Rightarrow> char) \<Rightarrow> string \<Rightarrow> 'n doc \<Rightarrow> string \<Rightarrow> bool" where
  "field_contains cfold q d f =
     (case map_of d f of
        Some (VStr s) \<Rightarrow> sublist (map cfold q) (map cfold s)
      | _ \<Rightarrow> False)"

text \<open>The orders a listing request selects.\<close>

definition selected_orders :: "string option \<Rightarrow> string option \<Rightarrow> 'n database \<Rightarrow> 'n doc list" where
  "selected_orders status_q customer_id_q db =
     filter (\<lambda>d. (case status_q of
                    None \<Rightarrow> True
                  | Some s \<Rightarrow> s = [] \<or> map_of d ''status'' = Some (VStr s)) \<and>
                 (case customer_id_q of
                    None \<Rightarrow> True
                  | Some c \<Rightarrow> c = [] \<or> map_of d ''customer_id'' = Some (VStr c)))
       (db ''order'')"


text \<open>
  The references of an order as \<^verbatim>\<open>create_order\<close> stores it: \<open>None\<close> is a null field. A
  reference is decodable when it is null, empty or a text \<^verbatim>\<open>ObjectId\<close> accepts. It matches
  no document of a collection when it is null or empty, or decodes to an identifier that
  no document of the collection has.
\<close>

definition ref_decodable :: "string option \<Rightarrow> bool" where
  "ref_decodable r =
     (case r of
        None \<Rightarrow> True
      | Some s \<Rightarrow>
          s = [] \<or> (case ObjectId_str s of None \<Rightarrow> False | Some k \<Rightarrow> True))"

definition ref_unmatched :: "'n doc list \<Rightarrow> string option \<Rightarrow> bool" where
  "ref_unmatched coll r =
     (case r of
        None \<Rightarrow> True
      | Some s \<Rightarrow>
          s = [] \<or>
          (case ObjectId_str s of
             None \<Rightarrow> False
           | Some k \<Rightarrow> find_one coll k = None))"

text \<open>
  The name a listing attaches for a reference: the \<^verbatim>\<open>name\<close> field of the document the
  decoded reference finds, null when there is none.
\<close>

definition ref_name :: "'n doc list \<Rightarrow> string option \<Rightarrow> 'n val" where
  "ref_name coll r =
     (case r of
        None \<Rightarrow> VNull
      | Some s \<Rightarrow>
          if s = [] then VNull
          else (case ObjectId_str s of
                  None \<Rightarrow> VNull
                | Some k \<Rightarrow> name_of (find_one coll k)))"

text \<open>
  The record of a listing for the order \<open>p\<close> stored under the identifier \<open>k\<close>: the fields
  of the order, the identifier as text under \<^verbatim>\<open>id\<close>, and the two names.
\<close>

definition listed_order :: "'n database \<Rightarrow> oid \<Rightarrow> 'n Order \<Rightarrow> 'n doc" where
  "listed_order db k p =
     Order_dump p @
     [(''id'', VStr (hex_of k)),
      (''customer_name'', ref_name (db ''customer'') (Some (customer_id p))),
      (''installer_name'', ref_name (db ''installer'') (installer_id p))]"

subsection \<open>An arithmetic and data for the examples\<close>

text \<open>
  Exact decimal arithmetic on the rationals, rounding half to even. The examples use
  numbers on which double arithmetic is exact as well; they neither parse nor print
  numbers.
\<close>

definition round2 :: "rat \<Rightarrow> rat" where
  "round2 x =
     (let y = x * 100; f = \<lfloor>y\<rfloor>; r = y - of_int f
      in of_int (if r < 1 / 2 then f else if 1 / 2 < r then f + 1
                 else if even f then f else f + 1) / 100)"

definition exact :: "rat pyfloat" where
  "exact = \<lparr>fzero = 0, fone = 1, fadd = (+), fmul = (*), fround2 = round2,
            fle = (\<le>), flt = (<), fparse = (\<lambda>s. None), repr = (\<lambda>v. [])\<rparr>"

text \<open>
  The case folding of the examples: the capitals of ASCII and of the Latin-1 supplement
  fold to their small letters.
\<close>

definition latin1_fold :: "char \<Rightarrow> char" where
  "latin1_fold c =
     (let n = (of_char c :: nat)
      in if (65 \<le> n \<and> n \<le> 90) \<or> (192 \<le> n \<and> n \<le> 214) \<or> (216 \<le> n \<and> n \<le> 222)
         then char_of (n + 32) else c)"

text \<open>Identifiers, stores and payloads of the examples.\<close>

definition id1 :: oid where "id1 = Oid ''64b7f0a1c2d3e4f5a6b7c8d9''"
definition id2 :: oid where "id2 = Oid ''64b7f0a1c2d3e4f5a6b7c8da''"
definition id3 :: oid where "id3 = Oid ''64b7f0a1c2d3e4f5a6b7c8db''"

definition empty_db :: "rat database" where
  "empty_db = (\<lambda>c. [])"

definition payload1 :: "rat Order" where
  "payload1 = \<lparr>customer_id = ''no such customer'', installer_id = None,
     items = [\<lparr>material_id = ''not an identifier'', quantity = 4, unit_price = Some (5 / 2)\<rparr>],
     status = ''ny'', scheduled_date = None, total' = Some 99, notes' = None\<rparr>"



definition payload3 :: "rat Order" where
  "payload3 = \<lparr>customer_id = ''64b7f0a1c2d3e4f5a6b7c8da'', installer_id = None,
     items = [\<lparr>material_id = ''abc'', quantity = 1, unit_price = None\<rparr>],
     status = ''ny'', scheduled_date = None, total' = None, notes' = None\<rparr>"

definition payload3b :: "rat Order" where
  "payload3b = \<lparr>customer_id = ''64b7f0a1c2d3e4f5a6b7c8da'', installer_id = None,
     items = [\<lparr>material_id = ''no id at all'', quantity = 2, unit_price = Some 3\<rparr>,
              \<lparr>material_id = ''64b7f0a1c2d3e4f5a6b7c8db'', quantity = 1, unit_price = None\<rparr>],
     status = ''ny'', scheduled_date = None, total' = None, notes' = None\<rparr>"

definition payload3c :: "rat Order" where
  "payload3c = \<lparr>customer_id = ''64b7f0a1c2d3e4f5a6b7c8da'', installer_id = None,
     items = [\<lparr>material_id = ''64b7f0a1c2d3e4f5a6b7c8  '', quantity = 1, unit_price = None\<rparr>],
     status = ''ny'', scheduled_date = None, total' = None, notes' = None\<rparr>"

definition items5 :: "rat OrderItem list" where
  "items5 = [\<lparr>material_id = ''64b7f0a1c2d3e4f5a6b7c8d9'', quantity = 4, unit_price = Some (5 / 2)\<rparr>]"

definition order_default :: "rat Order" where
  "order_default = \<lparr>customer_id = ''64b7f0a1c2d3e4f5a6b7c8da'', installer_id = None,
     items = [], status = ''ny'', scheduled_date = None, total' = None, notes' = None\<rparr>"

definition customer_db :: "rat database" where
  "customer_db = empty_db(''customer'' :=
     [[(''_id'', VOid id1), (''name'', VStr ''Smith''), (''company'', VNull)],
      [(''_id'', VOid id2), (''name'', VStr ''Anna''), (''company'', VStr ''Blacksmiths AB'')],
      [(''_id'', VOid id3), (''name'', VStr [CHR 0xC5, CHR ''s'', CHR ''a'']),
       (''company'', VNull)]])"

definition order_malformed_customer :: "rat Order" where
  "order_malformed_customer = \<lparr>customer_id = ''abc'', installer_id = None,
     items = [], status = ''ny'', scheduled_date = None, total' = None, notes' = None\<rparr>"

definition malformed_db :: "rat database" where
  "malformed_db = snd (create_order exact id1 order_malformed_customer empty_db)"

definition order_a :: "rat Order" where
  "order_a = \<lparr>customer_id = ''64B7F0A1C2D3E4F5A6B7C8DA'', installer_id = None,
     items = [\<lparr>material_id = ''64b7f0a1c2d3e4f5a6b7c8d9'', quantity = 4, unit_price = Some (5 / 2)\<rparr>],
     status = ''ny'', scheduled_date = None, total' = Some 10, notes' = None\<rparr>"

definition order_b :: "rat Order" where
  "order_b = \<lparr>customer_id = ''64b7f0a1c2d3e4f5a6b7c8db'', installer_id = Some [],
     items = [], status = [], scheduled_date = None, total' = Some 0, notes' = None\<rparr>"

definition order_c :: "rat Order" where
  "order_c = \<lparr>customer_id = ''64b7f0a1c2d3e4f5a6b7c8  '',
     installer_id = Some ''64b7f0a1c2d3e4f5a6b7c8da'',
     items = [], status = ''klar'', scheduled_date = None, total' = Some 0, notes' = None\<rparr>"

definition listing_db :: "rat database" where
  "listing_db = empty_db
     (''customer'' := [[(''_id'', VOid id2), (''name'', VStr ''Anna''), (''company'', VNull)]],
      ''order'' := [stored_order id1 order_a, stored_order id2 order_b, stored_order id3 order_c])"

text \<open>
  The customers a listing request selects when its filter, if any, is read as a literal
  text: all of them without a filter, otherwise those whose \<^verbatim>\<open>name\<close> or \<^verbatim>\<open>company\<close>
  contains the text.
\<close>

definition customers_matching ::
  "(char \<Rightarrow> char) \<Rightarrow> string option \<Rightarrow> 'n database \<Rightarrow> 'n doc list" where
  "customers_matching cfold q db =
     (case q of
        None \<Rightarrow> db ''customer''
      | Some s \<Rightarrow>
          filter (\<lambda>d. field_contains cfold s d ''name'' \<or> field_contains cfold s d ''company'')
            (db ''customer''))"

text \<open>
  The external form of a record: the internal identifier, when there is one, is taken out
  and put as text under \<^verbatim>\<open>id\<close>.
\<close>

definition external_record :: "'n pyfloat \<Rightarrow> 'n doc \<Rightarrow> 'n doc" where
  "external_record ops d =
     (case map_of d ''_id'' of
        None \<Rightarrow> d
      | Some v \<Rightarrow> AList.update ''id'' (VStr (py_str ops v)) (AList.delete ''_id'' d))"

section \<open>Serialization is idempotent\<close>

lemma serialize_item_fixed:
  "serialize_item ops item = Inr item' \<Longrightarrow> serialize_item ops item' = Inr item'"
  by (auto simp: serialize_item_def update_conv' split: val.splits option.splits)

lemma serialize_items_fixed:
  "serialize_items ops its = Inr its' \<Longrightarrow> serialize_items ops its' = Inr its'"
proof (induction its arbitrary: its')
  case Nil
  then show ?case by simp
next
  case (Cons item rest)
  then show ?case
    by (auto split: sum.splits dest: serialize_item_fixed)
qed

lemma serialize_items_Nil:
  "serialize_items ops its = Inr its' \<Longrightarrow> (its' = []) = (its = [])"
  by (cases its) (auto split: sum.splits)

lemma serialize_fixed:
  assumes "serialize ops doc0 = Inr doc'"
  shows "serialize ops doc' = Inr doc'"
proof -
  define doc where "doc = (case map_of doc0 ''_id'' of
      Some v \<Rightarrow> AList.update ''id'' (VStr (py_str ops v)) (AList.delete ''_id'' doc0)
    | None \<Rightarrow> doc0)"
  have noid: "map_of doc ''_id'' = None"
    unfolding doc_def by (simp add: update_conv' delete_conv' split: option.splits)
  have ser: "serialize ops doc0 =
      (case map_of doc ''items'' of
         None \<Rightarrow> Inr doc
       | Some v \<Rightarrow>
           if truthy ops v then
             (case v of
                VList its \<Rightarrow>
                  (case serialize_items ops its of
                     Inl e \<Rightarrow> Inl e
                   | Inr its' \<Rightarrow> Inr (AList.update ''items'' (VList its') doc))
              | VStr s \<Rightarrow> Inl AttributeError
              | VDoc d \<Rightarrow> Inl AttributeError
              | _ \<Rightarrow> Inl TypeError)
           else Inr doc)"
    unfolding serialize_def doc_def Let_def by simp
  show ?thesis
  proof (cases "map_of doc ''items''")
    case None
    with ser assms have "doc' = doc" by simp
    with noid None show ?thesis by (simp add: serialize_def)
  next
    case (Some v)
    show ?thesis
    proof (cases "truthy ops v")
      case False
      with ser assms Some have "doc' = doc" by simp
      with noid Some False show ?thesis by (simp add: serialize_def)
    next
      case True
      with ser assms Some obtain its its' where
        v: "v = VList its" and its: "serialize_items ops its = Inr its'"
        and d': "doc' = AList.update ''items'' (VList its') doc"
        by (auto split: val.splits sum.splits)
      from True v have "its \<noteq> []" by simp
      with its have ne: "its' \<noteq> []" by (simp add: serialize_items_Nil)
      have a: "map_of doc' ''_id'' = None"
        using noid d' by (simp add: update_conv')
      have b: "map_of doc' ''items'' = Some (VList its')"
        using d' by (simp add: update_conv')
      have c: "AList.update ''items'' (VList its') doc' = doc'"
        using b by (rule update_triv)
      show ?thesis
        using a b c ne serialize_items_fixed [OF its] by (simp add: serialize_def)
    qed
  qed
qed

text \<open>
  Claim C4. Serializing the result of a serialization changes nothing: when the first pass
  raises, so does the composition, with the same exception; when it returns a document,
  the second pass returns that document. After the first pass there is no \<^verbatim>\<open>_id\<close> key
  left to rename and no item whose \<^verbatim>\<open>material_id\<close> is still an \<^verbatim>\<open>ObjectId\<close>.
\<close>

theorem serialize_idempotent:
  "bind_err (serialize ops doc) (serialize ops) = serialize ops doc"
  by (cases "serialize ops doc") (simp_all add: bind_err_def serialize_fixed)

section \<open>Creating an order\<close>

lemma price_items_Inr:
  "price_items ops db its acc = Inr (its', t) \<Longrightarrow>
   \<exists>ps. list_all2 (\<lambda>it p. item_price ops db it = Inr p) its ps \<and>
        its' = map2 (\<lambda>it p. it\<lparr>unit_price := Some p\<rparr>) its ps \<and>
        t = sum_lines ops acc (zip ps (map quantity its))"
proof (induction its arbitrary: acc its' t)
  case Nil
  then show ?case by simp
next
  case (Cons item rest)
  from Cons.prems obtain p rest' where
    p: "item_price ops db item = Inr p"
    and r: "price_items ops db rest (fadd ops acc (fmul ops p (quantity item))) = Inr (rest', t)"
    and i: "its' = item\<lparr>unit_price := Some p\<rparr> # rest'"
    by (auto split: sum.splits)
  from Cons.IH [OF r] obtain ps where
    a: "list_all2 (\<lambda>it p. item_price ops db it = Inr p) rest ps"
    and b: "rest' = map2 (\<lambda>it p. it\<lparr>unit_price := Some p\<rparr>) rest ps"
    and c: "t = sum_lines ops (fadd ops acc (fmul ops p (quantity item))) (zip ps (map quantity rest))"
    by blast
  show ?case
    using p a b c i by (intro exI [of _ "p # ps"]) simp
qed

lemma price_items_resolved:
  "list_all2 (\<lambda>it p. item_price ops db it = Inr p) its ps \<Longrightarrow>
   price_items ops db its acc =
     Inr (map2 (\<lambda>it p. it\<lparr>unit_price := Some p\<rparr>) its ps,
          sum_lines ops acc (zip ps (map quantity its)))"
  by (induction its ps arbitrary: acc rule: list_all2_induct) simp_all

lemma item_price_priced: "unit_price it = Some p \<Longrightarrow> item_price ops db it = Inr p"
  by (simp add: item_price_def)

lemma priced_resolved:
  "map unit_price its = map Some ps \<Longrightarrow>
   list_all2 (\<lambda>it p. item_price ops db it = Inr p) its ps"
  by (induction its arbitrary: ps) (auto simp: item_price_priced)

lemma priced_unchanged:
  "map unit_price its = map Some ps \<Longrightarrow>
   map2 (\<lambda>it p. it\<lparr>unit_price := Some p\<rparr>) its ps = its"
proof (induction its arbitrary: ps)
  case Nil
  then show ?case by simp
next
  case (Cons it its)
  then obtain p ps' where ps: "ps = p # ps'" by (cases ps) auto
  with Cons.prems have "unit_price it = Some p" by simp
  then have "it\<lparr>unit_price := Some p\<rparr> = it" by (cases it) simp
  with Cons ps show ?case by simp
qed

lemma create_order_resolved:
  assumes "list_all2 (\<lambda>it p. item_price ops db it = Inr p) (items payload) ps"
  shows "create_order ops new_id payload db =
    (Inr (order_response new_id (order_total ops ps (items payload))),
     db(''order'' := db ''order'' @
        [stored_order new_id
           (payload\<lparr>items := map2 (\<lambda>it p. it\<lparr>unit_price := Some p\<rparr>) (items payload) ps,
                     total' := Some (order_total ops ps (items payload))\<rparr>)]))"
  using price_items_resolved [OF assms, of "fzero ops"]
  by (simp add: create_order_def create_document_def order_response_def stored_order_def
      order_total_def opt_val_def)

lemma create_order_Inr:
  assumes "create_order ops new_id payload db = (Inr resp, db')"
  shows "\<exists>ps. list_all2 (\<lambda>it p. item_price ops db it = Inr p) (items payload) ps"
proof -
  from assms obtain its t where "price_items ops db (items payload) (fzero ops) = Inr (its, t)"
    by (auto simp: create_order_def split: sum.splits)
  from price_items_Inr [OF this] show ?thesis by blast
qed

subsection \<open>Items with explicit prices\<close>

lemma round2_int: "round2 (of_int n) = of_int n"
  by (simp add: round2_def Let_def)

text \<open>
  Claim C1. When every item of the payload carries its own \<^verbatim>\<open>unit_price\<close> (the prices
  \<open>ps\<close>), \<^verbatim>\<open>create_order\<close> succeeds: it answers with the generated identifier and the
  total \<^verbatim>\<open>round(sum, 2)\<close> of price times quantity over the items, and stores the order
  with that total. Neither the answer nor the stored order depends on the material
  collection. For an empty item list the total is \<^verbatim>\<open>round(0.0, 2)\<close>, that is 0.0 in an
  arithmetic where rounding zero gives zero.
\<close>

theorem create_order_explicit_prices:
  assumes "map unit_price (items payload) = map Some ps"
  shows "create_order ops new_id payload db =
      (Inr (order_response new_id (order_total ops ps (items payload))),
       db(''order'' := db ''order'' @
          [stored_order new_id
             (payload\<lparr>total' := Some (order_total ops ps (items payload))\<rparr>)])) \<and>
    (items payload = [] \<and> fround2 ops (fzero ops) = fzero ops \<longrightarrow>
       fst (create_order ops new_id payload db) = Inr (order_response new_id (fzero ops)))"
proof -
  have eq: "create_order ops new_id payload db =
      (Inr (order_response new_id (order_total ops ps (items payload))),
       db(''order'' := db ''order'' @
          [stored_order new_id
             (payload\<lparr>total' := Some (order_total ops ps (items payload))\<rparr>)]))"
    using create_order_resolved [OF priced_resolved [OF assms]]
    by (simp add: priced_unchanged [OF assms])
  have "order_total ops ps [] = fround2 ops (fzero ops)"
    by (simp add: order_total_def)
  with eq show ?thesis by auto
qed

theorem create_order_explicit_prices_witness:
  "map unit_price (items payload1) = map Some [5 / 2] \<and>
   fst (create_order exact id1 payload1 empty_db) =
     Inr [(''id'', VStr ''64b7f0a1c2d3e4f5a6b7c8d9''), (''total'', VNum 10)]"
proof -
  have t: "order_total exact [5 / 2] (items payload1) = 10"
    using round2_int [of 10] by (simp add: order_total_def payload1_def exact_def)
  have h: "map unit_price (items payload1) = map Some [5 / 2]"
    by (simp add: payload1_def)
  show ?thesis
    using create_order_explicit_prices [OF h, where ops = exact and new_id = id1 and db = empty_db] h
    by (simp add: t order_response_def id1_def)
qed

subsection \<open>Prices taken from the material collection\<close>






subsection \<open>Items that match no material\<close>

lemma price_items_fail:
  "item_price ops db it = Inl e0 \<Longrightarrow>
   \<exists>e. price_items ops db (pre @ it # post) acc = Inl e \<and>
       (list_all (resolves ops db) pre \<longrightarrow> e = e0)"
proof (induction pre arbitrary: acc)
  case Nil
  then show ?case by simp
next
  case (Cons a pre)
  show ?case
  proof (cases "item_price ops db a")
    case (Inl e)
    then have "\<not> resolves ops db a" by (simp add: resolves_def)
    with Inl show ?thesis by simp
  next
    case (Inr p)
    from Cons.IH [OF Cons.prems, of "fadd ops acc (fmul ops p (quantity a))"]
    obtain e where "price_items ops db (pre @ it # post) (fadd ops acc (fmul ops p (quantity a))) = Inl e"
      and "list_all (resolves ops db) pre \<longrightarrow> e = e0"
      by blast
    moreover from Inr have "resolves ops db a" by (simp add: resolves_def)
    ultimately show ?thesis using Inr by simp
  qed
qed

lemma item_price_unmatched:
  assumes "unit_price it = None"
    and "case ObjectId (VStr (material_id it) :: 'n val) of
           None \<Rightarrow> True
         | Some k \<Rightarrow> find_one (db ''material'') k = None"
  shows "item_price ops (db :: 'n database) it =
     Inl (case ObjectId (VStr (material_id it) :: 'n val) of
            None \<Rightarrow> HTTPException 400 ''Ogiltigt ID''
          | Some k \<Rightarrow> HTTPException 404 (''Material saknas: '' @ material_id it))"
  using assms
  by (cases "ObjectId (VStr (material_id it) :: 'n val)")
    (simp_all add: item_price_def oid_def del: ObjectId.simps)

text \<open>
  Claim C3, as amended. When the payload has an item without \<^verbatim>\<open>unit_price\<close> whose
  \<^verbatim>\<open>material_id\<close> matches no material (\<^verbatim>\<open>ObjectId\<close> rejects it, or it decodes to an
  identifier no material has), \<^verbatim>\<open>create_order\<close> raises and leaves the whole store as it
  was. When every earlier item resolves, the exception is the 404 naming that
  \<^verbatim>\<open>material_id\<close> if \<^verbatim>\<open>ObjectId\<close> accepts it, and the 400 of \<^verbatim>\<open>oid\<close> if not.
\<close>

theorem create_order_unmatched_material:
  assumes "items payload = pre @ it # post"
    and "unit_price it = None"
    and "case ObjectId (VStr (material_id it) :: 'n val) of
           None \<Rightarrow> True
         | Some k \<Rightarrow> find_one (db ''material'') k = None"
  shows "\<exists>e. create_order ops new_id payload (db :: 'n database) = (Inl e, db) \<and>
     (list_all (resolves ops db) pre \<longrightarrow>
        e = (case ObjectId (VStr (material_id it) :: 'n val) of
               None \<Rightarrow> HTTPException 400 ''Ogiltigt ID''
             | Some k \<Rightarrow> HTTPException 404 (''Material saknas: '' @ material_id it)))"
proof -
  have "item_price ops db it =
     Inl (case ObjectId (VStr (material_id it) :: 'n val) of
            None \<Rightarrow> HTTPException 400 ''Ogiltigt ID''
          | Some k \<Rightarrow> HTTPException 404 (''Material saknas: '' @ material_id it))"
    using assms(2,3) by (rule item_price_unmatched)
  from price_items_fail [OF this, of pre post "fzero ops"]
  obtain e where
    e: "price_items ops db (pre @ it # post) (fzero ops) = Inl e"
    and f: "list_all (resolves ops db) pre \<longrightarrow>
        e = (case ObjectId (VStr (material_id it) :: 'n val) of
               None \<Rightarrow> HTTPException 400 ''Ogiltigt ID''
             | Some k \<Rightarrow> HTTPException 404 (''Material saknas: '' @ material_id it))"
    by blast
  from e assms(1) have "create_order ops new_id payload db = (Inl e, db)"
    by (simp add: create_order_def)
  with f show ?thesis by blast
qed

theorem create_order_unmatched_material_witness:
  "create_order exact id2 payload3b empty_db =
     (Inl (HTTPException 404 ''Material saknas: 64b7f0a1c2d3e4f5a6b7c8db''), empty_db) \<and>
   create_order exact id2 payload3c empty_db =
     (Inl (HTTPException 404 ''Material saknas: 64b7f0a1c2d3e4f5a6b7c8  ''), empty_db)"
proof -
  have a: "items payload3b =
      [\<lparr>material_id = ''no id at all'', quantity = 2, unit_price = Some 3\<rparr>] @
      \<lparr>material_id = ''64b7f0a1c2d3e4f5a6b7c8db'', quantity = 1, unit_price = None\<rparr> # []"
    by (simp add: payload3b_def)
  have b: "unit_price \<lparr>material_id = ''64b7f0a1c2d3e4f5a6b7c8db'', quantity = 1 :: rat,
                       unit_price = None\<rparr> = None"
    by simp
  have o: "ObjectId (VStr ''64b7f0a1c2d3e4f5a6b7c8db'' :: rat val) = Some id3"
    by (simp add: ObjectId_str_def is_hex_def is_space_def lower_def id3_def)
  have c: "case ObjectId (VStr (material_id \<lparr>material_id = ''64b7f0a1c2d3e4f5a6b7c8db'',
                 quantity = 1 :: rat, unit_price = None\<rparr>) :: rat val) of
             None \<Rightarrow> True
           | Some k \<Rightarrow> find_one (empty_db ''material'') k = None"
    by (simp add: o empty_db_def find_one_def del: ObjectId.simps)
  have d: "list_all (resolves exact empty_db)
      [\<lparr>material_id = ''no id at all'', quantity = 2, unit_price = Some 3\<rparr>]"
    by (simp add: resolves_def item_price_def)
  from create_order_unmatched_material
    [where db = empty_db and ops = exact and new_id = id2, OF a b c] d
  have r1: "create_order exact id2 payload3b empty_db =
     (Inl (HTTPException 404 ''Material saknas: 64b7f0a1c2d3e4f5a6b7c8db''), empty_db)"
    by (simp add: o del: ObjectId.simps)
  have a': "items payload3c =
      [] @ \<lparr>material_id = ''64b7f0a1c2d3e4f5a6b7c8  '', quantity = 1, unit_price = None\<rparr> # []"
    by (simp add: payload3c_def)
  have b': "unit_price \<lparr>material_id = ''64b7f0a1c2d3e4f5a6b7c8  '', quantity = 1 :: rat,
                       unit_price = None\<rparr> = None"
    by simp
  have o': "ObjectId (VStr ''64b7f0a1c2d3e4f5a6b7c8  '' :: rat val) =
      Some (Oid ''64b7f0a1c2d3e4f5a6b7c8'')"
    by (simp add: ObjectId_str_def is_hex_def is_space_def lower_def)
  have c': "case ObjectId (VStr (material_id \<lparr>material_id = ''64b7f0a1c2d3e4f5a6b7c8  '',
                 quantity = 1 :: rat, unit_price = None\<rparr>) :: rat val) of
             None \<Rightarrow> True
           | Some k \<Rightarrow> find_one (empty_db ''material'') k = None"
    by (simp add: o' empty_db_def find_one_def del: ObjectId.simps)
  from create_order_unmatched_material
    [where db = empty_db and ops = exact and new_id = id2, OF a' b' c']
  have r2: "create_order exact id2 payload3c empty_db =
     (Inl (HTTPException 404 ''Material saknas: 64b7f0a1c2d3e4f5a6b7c8  ''), empty_db)"
    by (simp add: o' del: ObjectId.simps)
  from r1 r2 show ?thesis by blast
qed

text \<open>
  The claim as stated fails on a reference \<^verbatim>\<open>ObjectId\<close> rejects: the only item has no
  price and its \<^verbatim>\<open>material_id\<close> \<^verbatim>\<open>abc\<close> matches no material of the empty store, yet the
  exception is the 400 of \<^verbatim>\<open>oid\<close>, not the 404 for a missing material.
\<close>

theorem create_order_malformed_id_counterexample:
  "empty_db ''material'' = [] \<and>
   map unit_price (items payload3) = [None] \<and>
   create_order exact id2 payload3 empty_db =
     (Inl (HTTPException 400 ''Ogiltigt ID''), empty_db) \<and>
   HTTPException 400 ''Ogiltigt ID'' \<noteq> HTTPException 404 ''Material saknas: abc''"
  by (simp add: create_order_def payload3_def item_price_def oid_def ObjectId_str_def
      empty_db_def)

subsection \<open>References of priced items\<close>

lemma fst_create_order:
  "fst (create_order ops new_id payload db) =
     (case price_items ops db (items payload) (fzero ops) of
        Inl e \<Rightarrow> Inl e
      | Inr (its, t) \<Rightarrow> Inr (order_response new_id (fround2 ops t)))"
  by (simp add: create_order_def create_document_def order_response_def opt_val_def
      split: sum.splits prod.splits)

lemma same_item_price:
  assumes "same_but_priced_ref a b"
  shows "item_price ops db b = item_price ops db a \<and> quantity b = quantity a"
proof (cases "unit_price a")
  case None
  with assms show ?thesis
    by (simp add: same_but_priced_ref_def)
next
  case (Some p)
  with assms have e: "b = a\<lparr>material_id := material_id b\<rparr>"
    by (simp add: same_but_priced_ref_def)
  have "unit_price b = unit_price (a\<lparr>material_id := material_id b\<rparr>)"
    and "quantity b = quantity (a\<lparr>material_id := material_id b\<rparr>)"
    using e by (rule arg_cong)+
  with Some show ?thesis
    by (simp add: item_price_def)
qed

lemma price_items_same:
  "list_all2 same_but_priced_ref its its2 \<Longrightarrow>
   map_sum id snd (price_items ops db its2 acc) = map_sum id snd (price_items ops db its acc)"
proof (induction its its2 arbitrary: acc rule: list_all2_induct)
  case Nil
  then show ?case by simp
next
  case (Cons a its b its2)
  from same_item_price [OF Cons.hyps(1)]
  have p: "item_price ops db b = item_price ops db a" and q: "quantity b = quantity a"
    by simp_all
  show ?case
  proof (cases "item_price ops db a")
    case (Inl e)
    with p show ?thesis by simp
  next
    case (Inr x)
    with p q Cons.IH [of "fadd ops acc (fmul ops x (quantity a))"]
    show ?thesis
      by (auto split: sum.splits)
  qed
qed

lemma price_items_Inl_source:
  "price_items ops db its acc = Inl e \<Longrightarrow> \<exists>it\<in>set its. item_price ops db it = Inl e"
proof (induction its arbitrary: acc)
  case Nil
  then show ?case by simp
next
  case (Cons a its)
  then show ?case
    by (cases "item_price ops db a") (auto split: sum.splits)
qed

lemma item_price_Inl_unpriced: "item_price ops db it = Inl e \<Longrightarrow> unit_price it = None"
  by (cases "unit_price it") (simp_all add: item_price_def)

text \<open>
  Claim C5. The \<^verbatim>\<open>material_id\<close> of an item that carries its own \<^verbatim>\<open>unit_price\<close> is never
  decoded or looked up: replacing such references by any text leaves the outcome of
  \<^verbatim>\<open>create_order\<close> (the response or the exception) as it was. An exception of
  \<^verbatim>\<open>create_order\<close> is always the one raised for an item whose \<^verbatim>\<open>unit_price\<close> is unset.
\<close>

theorem create_order_ignores_priced_refs:
  assumes "list_all2 same_but_priced_ref (items payload) its2"
  shows "fst (create_order ops new_id (payload\<lparr>items := its2\<rparr>) db) =
           fst (create_order ops new_id payload db) \<and>
         (\<forall>e. fst (create_order ops new_id payload db) = Inl e \<longrightarrow>
            (\<exists>it\<in>set (items payload). unit_price it = None \<and> item_price ops db it = Inl e))"
proof -
  let ?r = "price_items ops db (items payload) (fzero ops)"
  let ?r2 = "price_items ops db its2 (fzero ops)"
  have s: "map_sum id snd ?r2 = map_sum id snd ?r"
    using assms by (rule price_items_same)
  have a: "fst (create_order ops new_id (payload\<lparr>items := its2\<rparr>) db) =
           fst (create_order ops new_id payload db)"
  proof (cases ?r)
    case (Inl e)
    with s have "?r2 = Inl e" by (cases ?r2) simp_all
    with Inl show ?thesis by (simp add: fst_create_order)
  next
    case (Inr x)
    with s obtain y where "?r2 = Inr y" and "snd y = snd x" by (cases ?r2) simp_all
    with Inr show ?thesis by (cases x; cases y) (simp add: fst_create_order)
  qed
  have b: "\<exists>it\<in>set (items payload). unit_price it = None \<and> item_price ops db it = Inl e"
    if "fst (create_order ops new_id payload db) = Inl e" for e
  proof -
    from that have "?r = Inl e"
      by (simp add: fst_create_order split: sum.splits prod.splits)
    from price_items_Inl_source [OF this] obtain it where
      "it \<in> set (items payload)" and "item_price ops db it = Inl e" by blast
    then show ?thesis using item_price_Inl_unpriced by blast
  qed
  from a b show ?thesis by blast
qed

theorem create_order_ignores_priced_refs_witness:
  "list_all2 same_but_priced_ref (items payload1) items5 \<and>
   fst (create_order exact id1 (payload1\<lparr>items := items5\<rparr>) empty_db) =
     fst (create_order exact id1 payload1 empty_db) \<and>
   fst (create_order exact id1 payload1 empty_db) =
     Inr [(''id'', VStr ''64b7f0a1c2d3e4f5a6b7c8d9''), (''total'', VNum 10)]"
proof -
  have h: "list_all2 same_but_priced_ref (items payload1) items5"
    by (simp add: payload1_def items5_def same_but_priced_ref_def)
  have v: "fst (create_order exact id1 payload1 empty_db) =
     Inr [(''id'', VStr ''64b7f0a1c2d3e4f5a6b7c8d9''), (''total'', VNum 10)]"
    using round2_int [of 10]
    by (simp add: fst_create_order payload1_def item_price_def exact_def order_response_def
        id1_def)
  from create_order_ignores_priced_refs [OF h, where ops = exact and new_id = id1 and db = empty_db]
  have "fst (create_order exact id1 (payload1\<lparr>items := items5\<rparr>) empty_db) =
     fst (create_order exact id1 payload1 empty_db)"
    by blast
  with h v show ?thesis by blast
qed

subsection \<open>The total is computed\<close>

lemma resolved_items_prices:
  "length ps = length its \<Longrightarrow>
   map unit_price (map2 (\<lambda>it p. it\<lparr>unit_price := Some p\<rparr>) its ps) = map Some ps \<and>
   map quantity (map2 (\<lambda>it p. it\<lparr>unit_price := Some p\<rparr>) its ps) = map quantity its"
  by (induction its ps rule: list_induct2') simp_all

lemma order_total_quantities:
  "map quantity its' = map quantity its \<Longrightarrow> order_total ops ps its' = order_total ops ps its"
  by (simp add: order_total_def)

text \<open>
  Claim C9. A \<^verbatim>\<open>total\<close> sent by the client is ignored: \<^verbatim>\<open>create_order\<close> behaves the same
  whatever the payload's \<^verbatim>\<open>total\<close> is, and when it succeeds, the total it returns and the
  total of the order it stores are both \<^verbatim>\<open>round(sum, 2)\<close> of price times quantity over the
  stored items.
\<close>

theorem create_order_total_computed:
  "create_order ops new_id (payload\<lparr>total' := t\<rparr>) db = create_order ops new_id payload db \<and>
   (\<forall>resp db'. create_order ops new_id (payload\<lparr>total' := t\<rparr>) db = (Inr resp, db') \<longrightarrow>
      (\<exists>its ps. map unit_price its = map Some ps \<and>
         map quantity its = map quantity (items payload) \<and>
         resp = order_response new_id (order_total ops ps its) \<and>
         db' = db(''order'' := db ''order'' @
                 [stored_order new_id
                    (payload\<lparr>items := its, total' := Some (order_total ops ps its)\<rparr>)])))"
proof -
  have a: "create_order ops new_id (payload\<lparr>total' := t\<rparr>) db = create_order ops new_id payload db"
    by (cases "price_items ops db (items payload) (fzero ops)") (auto simp: create_order_def)
  have b: "\<exists>its ps. map unit_price its = map Some ps \<and>
         map quantity its = map quantity (items payload) \<and>
         resp = order_response new_id (order_total ops ps its) \<and>
         db' = db(''order'' := db ''order'' @
                 [stored_order new_id
                    (payload\<lparr>items := its, total' := Some (order_total ops ps its)\<rparr>)])"
    if "create_order ops new_id (payload\<lparr>total' := t\<rparr>) db = (Inr resp, db')" for resp db'
  proof -
    from that a have ok: "create_order ops new_id payload db = (Inr resp, db')" by simp
    from create_order_Inr [OF ok] obtain ps where
      ps: "list_all2 (\<lambda>it p. item_price ops db it = Inr p) (items payload) ps" by blast
    let ?its = "map2 (\<lambda>it p. it\<lparr>unit_price := Some p\<rparr>) (items payload) ps"
    from ps have len: "length ps = length (items payload)"
      by (simp add: list_all2_lengthD)
    from resolved_items_prices [OF len]
    have u: "map unit_price ?its = map Some ps"
      and q: "map quantity ?its = map quantity (items payload)" by simp_all
    have t: "order_total ops ps ?its = order_total ops ps (items payload)"
      using q by (rule order_total_quantities)
    from create_order_resolved [OF ps] ok
    have "resp = order_response new_id (order_total ops ps ?its)"
      and "db' = db(''order'' := db ''order'' @
                 [stored_order new_id
                    (payload\<lparr>items := ?its, total' := Some (order_total ops ps ?its)\<rparr>)])"
      by (simp_all add: t)
    with u q show ?thesis by blast
  qed
  from a b show ?thesis by blast
qed

theorem create_order_total_computed_witness:
  "total' payload1 = Some 99 \<and>
   create_order exact id1 (payload1\<lparr>total' := Some 1\<rparr>) empty_db =
     create_order exact id1 payload1 empty_db \<and>
   fst (create_order exact id1 payload1 empty_db) =
     Inr [(''id'', VStr ''64b7f0a1c2d3e4f5a6b7c8d9''), (''total'', VNum 10)] \<and>
   map_of (last (snd (create_order exact id1 payload1 empty_db) ''order'')) ''total'' =
     Some (VNum 10)"
proof -
  have l: "list_all2 (\<lambda>it p. item_price exact empty_db it = Inr p) (items payload1) [5 / 2]"
    by (simp add: payload1_def item_price_def)
  have t: "order_total exact [5 / 2] (items payload1) = 10"
    using round2_int [of 10] by (simp add: order_total_def payload1_def exact_def)
  have v: "fst (create_order exact id1 payload1 empty_db) =
     Inr [(''id'', VStr ''64b7f0a1c2d3e4f5a6b7c8d9''), (''total'', VNum 10)]"
    using create_order_resolved [OF l, where new_id = id1]
    by (simp add: t order_response_def id1_def)
  have w: "map_of (last (snd (create_order exact id1 payload1 empty_db) ''order'')) ''total'' =
     Some (VNum 10)"
    using create_order_resolved [OF l, where new_id = id1]
    by (simp add: t stored_order_def Order_dump_def opt_val_def)
  from create_order_total_computed
    [where ops = exact and new_id = id1 and payload = payload1 and t = "Some 1" and db = empty_db]
  have "create_order exact id1 (payload1\<lparr>total' := Some 1\<rparr>) empty_db =
     create_order exact id1 payload1 empty_db" by blast
  with v w show ?thesis by (simp add: payload1_def)
qed

subsection \<open>The default status\<close>

lemma stored_order_status:
  "map_of (stored_order new_id p) ''status'' = Some (VStr (status p))"
  by (simp add: stored_order_def Order_dump_def)

text \<open>
  Claim C8, as amended. An order built from a request without a \<^verbatim>\<open>status\<close> field has the
  schema's default status, which is \<^verbatim>\<open>ny\<close>; \<^verbatim>\<open>create_order\<close> stores the order with that
  status.
\<close>

theorem new_Order_default_status:
  assumes "new_Order ops cid iid its None sd tot nts = Inr payload"
  shows "status payload = ''ny'' \<and>
    (\<forall>new_id db resp db'. create_order ops new_id payload db = (Inr resp, db') \<longrightarrow>
       (\<exists>stored. db' ''order'' = db ''order'' @ [stored] \<and>
                 map_of stored ''status'' = Some (VStr ''ny'')))"
proof -
  from assms have s: "status payload = ''ny''"
    by (auto simp: new_Order_def split: if_splits)
  have "\<exists>stored. db' ''order'' = db ''order'' @ [stored] \<and>
                 map_of stored ''status'' = Some (VStr ''ny'')"
    if ok: "create_order ops new_id payload db = (Inr resp, db')" for new_id db resp db'
  proof -
    from create_order_Inr [OF ok] obtain ps where
      ps: "list_all2 (\<lambda>it p. item_price ops db it = Inr p) (items payload) ps" by blast
    from create_order_resolved [OF ps] ok
    have "db' ''order'' = db ''order'' @
        [stored_order new_id
           (payload\<lparr>items := map2 (\<lambda>it p. it\<lparr>unit_price := Some p\<rparr>) (items payload) ps,
                     total' := Some (order_total ops ps (items payload))\<rparr>)]"
      by auto
    then show ?thesis
      using s by (simp add: stored_order_status)
  qed
  with s show ?thesis by blast
qed

theorem new_Order_default_status_witness:
  "new_Order exact ''64b7f0a1c2d3e4f5a6b7c8da'' None None None None None None = Inr order_default \<and>
   status order_default = ''ny''"
proof -
  have h: "new_Order exact ''64b7f0a1c2d3e4f5a6b7c8da'' None None None None None None
      = Inr order_default"
    by (simp add: new_Order_def order_default_def)
  from new_Order_default_status [OF h] h show ?thesis by blast
qed

text \<open>
  The claim as stated names the default \<^verbatim>\<open>new\<close>. A request with only the customer gives an
  order whose status is \<^verbatim>\<open>ny\<close>, and that is the status \<^verbatim>\<open>create_order\<close> stores.
\<close>

theorem new_Order_status_counterexample:
  "map_sum id status
     (new_Order exact ''64b7f0a1c2d3e4f5a6b7c8da'' None None None None None None) = Inr ''ny'' \<and>
   ''ny'' \<noteq> ''new'' \<and>
   map_of (last (snd (create_order exact id1 order_default empty_db) ''order'')) ''status''
     = Some (VStr ''ny'')"
  by (simp add: new_Order_def order_default_def create_order_def create_document_def
      Order_dump_def)

section \<open>Listing orders\<close>

lemma serialize_items_dump:
  "serialize_items ops (map (\<lambda>it. VDoc (OrderItem_dump it)) its) =
     Inr (map (\<lambda>it. VDoc (OrderItem_dump it)) its)"
  by (induction its) (simp_all add: serialize_item_def OrderItem_dump_def)

lemma serialize_stored_order:
  "serialize ops (stored_order k p) = Inr (Order_dump p @ [(''id'', VStr (hex_of k))])"
  by (simp add: serialize_def stored_order_def Order_dump_def serialize_items_dump Let_def)

lemma lookup_ref_customer:
  "lookup_ref ops coll (stored_order k p) ''customer_id'' =
     (if customer_id p = [] then Inr None
      else (case ObjectId_str (customer_id p) of
              None \<Rightarrow> Inl (HTTPException 400 ''Ogiltigt ID'')
            | Some k' \<Rightarrow> Inr (find_one coll k')))"
  by (simp add: lookup_ref_def stored_order_def Order_dump_def oid_def split: option.splits)

lemma lookup_ref_installer:
  "lookup_ref ops coll (stored_order k p) ''installer_id'' =
     (case installer_id p of
        None \<Rightarrow> Inr None
      | Some s \<Rightarrow>
          if s = [] then Inr None
          else (case ObjectId_str s of
                  None \<Rightarrow> Inl (HTTPException 400 ''Ogiltigt ID'')
                | Some k' \<Rightarrow> Inr (find_one coll k')))"
  by (simp add: lookup_ref_def stored_order_def Order_dump_def oid_def opt_val_def
      split: option.splits)

lemma name_of_None: "name_of None = VNull"
  by (simp add: name_of_def)

lemma enrich_stored_order:
  assumes "ref_decodable (Some (customer_id p))" and "ref_decodable (installer_id p)"
  shows "enrich ops db (stored_order k p) = Inr (listed_order db k p)"
proof -
  have c: "lookup_ref ops (db ''customer'') (stored_order k p) ''customer_id'' =
      Inr (if customer_id p = [] then None
           else (case ObjectId_str (customer_id p) of
                   None \<Rightarrow> None | Some k' \<Rightarrow> find_one (db ''customer'') k'))"
    using assms(1)
    by (auto simp: lookup_ref_customer ref_decodable_def split: option.splits)
  have i: "lookup_ref ops (db ''installer'') (stored_order k p) ''installer_id'' =
      Inr (case installer_id p of
             None \<Rightarrow> None
           | Some s \<Rightarrow>
               if s = [] then None
               else (case ObjectId_str s of
                       None \<Rightarrow> None | Some k' \<Rightarrow> find_one (db ''installer'') k'))"
    using assms(2)
    by (auto simp: lookup_ref_installer ref_decodable_def split: option.splits)
  have n1: "name_of (if customer_id p = [] then None
           else (case ObjectId_str (customer_id p) of
                   None \<Rightarrow> None | Some k' \<Rightarrow> find_one (db ''customer'') k'))
        = ref_name (db ''customer'') (Some (customer_id p))"
    by (simp add: ref_name_def name_of_None split: option.splits)
  have n2: "name_of (case installer_id p of
             None \<Rightarrow> None
           | Some s \<Rightarrow>
               if s = [] then None
               else (case ObjectId_str s of
                       None \<Rightarrow> None | Some k' \<Rightarrow> find_one (db ''installer'') k'))
        = ref_name (db ''installer'') (installer_id p)"
    by (simp add: ref_name_def name_of_None split: option.splits)
  show ?thesis
    unfolding enrich_def c i serialize_stored_order
    by (simp only: sum.case n1 n2) (simp add: listed_order_def Order_dump_def)
qed

lemma enrich_all_stored_orders:
  "list_all (\<lambda>(k, p). ref_decodable (Some (customer_id p)) \<and> ref_decodable (installer_id p)) kps
   \<Longrightarrow> enrich_all ops db (map (\<lambda>(k, p). stored_order k p) kps) =
         Inr (map (\<lambda>(k, p). listed_order db k p) kps)"
  by (induction kps) (auto simp: enrich_stored_order)

lemma get_documents_orders:
  "get_documents cfold ''order''
     ((case status_q of
         None \<Rightarrow> []
       | Some s \<Rightarrow> if s \<noteq> [] then [Eq ''status'' (VStr s)] else []) @
      (case customer_id_q of
         None \<Rightarrow> []
       | Some c \<Rightarrow> if c \<noteq> [] then [Eq ''customer_id'' (VStr c)] else [])) db
   = Inr (selected_orders status_q customer_id_q db)"
  by (cases status_q; cases customer_id_q)
    (simp_all add: get_documents_def selected_orders_def)

lemma list_orders_selected:
  "list_orders ops cfold status_q customer_id_q db =
     enrich_all ops db (selected_orders status_q customer_id_q db)"
  by (simp add: list_orders_def get_documents_orders)

lemma ref_unmatched_name: "ref_unmatched coll r \<Longrightarrow> ref_name coll r = VNull"
  by (auto simp: ref_unmatched_def ref_name_def name_of_None split: option.splits)

lemma listed_order_names:
  "map_of (listed_order db k p) ''customer_name'' =
     Some (ref_name (db ''customer'') (Some (customer_id p)))"
  "map_of (listed_order db k p) ''installer_name'' =
     Some (ref_name (db ''installer'') (installer_id p))"
  by (simp_all add: listed_order_def Order_dump_def)

text \<open>
  Claim C7, as amended. Let the orders a listing request selects be orders as
  \<^verbatim>\<open>create_order\<close> stores them, each with a \<^verbatim>\<open>customer_id\<close> and an \<^verbatim>\<open>installer_id\<close> that is
  null, empty or a text \<^verbatim>\<open>ObjectId\<close> accepts. Then \<^verbatim>\<open>list_orders\<close> does not raise: it
  returns, in order, the record of each selected order (its fields, its identifier as
  text and the two names). In the record of an order whose \<^verbatim>\<open>customer_id\<close> matches no
  customer the \<^verbatim>\<open>customer_name\<close> is null, and in the record of an order whose
  \<^verbatim>\<open>installer_id\<close> matches no installer the \<^verbatim>\<open>installer_name\<close> is null.
\<close>

theorem list_orders_unmatched_refs:
  assumes "selected_orders status_q customer_id_q db = map (\<lambda>(k, p). stored_order k p) kps"
    and "list_all (\<lambda>(k, p). ref_decodable (Some (customer_id p)) \<and>
                            ref_decodable (installer_id p)) kps"
  shows "list_orders ops cfold status_q customer_id_q db =
           Inr (map (\<lambda>(k, p). listed_order db k p) kps) \<and>
         list_all (\<lambda>(k, p).
            (ref_unmatched (db ''customer'') (Some (customer_id p)) \<longrightarrow>
               map_of (listed_order db k p) ''customer_name'' = Some VNull) \<and>
            (ref_unmatched (db ''installer'') (installer_id p) \<longrightarrow>
               map_of (listed_order db k p) ''installer_name'' = Some VNull)) kps"
proof -
  have "list_orders ops cfold status_q customer_id_q db =
           Inr (map (\<lambda>(k, p). listed_order db k p) kps)"
    using enrich_all_stored_orders [OF assms(2)]
    by (simp add: list_orders_selected assms(1))
  moreover have "list_all (\<lambda>(k, p).
            (ref_unmatched (db ''customer'') (Some (customer_id p)) \<longrightarrow>
               map_of (listed_order db k p) ''customer_name'' = Some VNull) \<and>
            (ref_unmatched (db ''installer'') (installer_id p) \<longrightarrow>
               map_of (listed_order db k p) ''installer_name'' = Some VNull)) kps"
    by (simp add: list_all_iff listed_order_names ref_unmatched_name split: prod.splits)
  ultimately show ?thesis by blast
qed

lemma example_ids:
  "ObjectId_str ''64B7F0A1C2D3E4F5A6B7C8DA'' = Some id2"
  "ObjectId_str ''64b7f0a1c2d3e4f5a6b7c8da'' = Some id2"
  "ObjectId_str ''64b7f0a1c2d3e4f5a6b7c8db'' = Some id3"
  "ObjectId_str ''64b7f0a1c2d3e4f5a6b7c8  '' = Some (Oid ''64b7f0a1c2d3e4f5a6b7c8'')"
  "ObjectId_str ''abc'' = None"
  by (simp_all add: ObjectId_str_def is_hex_def is_space_def lower_def id2_def id3_def)

theorem list_orders_unmatched_refs_witness:
  "list_orders exact latin1_fold None None listing_db =
     Inr [Order_dump order_a @
            [(''id'', VStr ''64b7f0a1c2d3e4f5a6b7c8d9''), (''customer_name'', VStr ''Anna''),
             (''installer_name'', VNull)],
          Order_dump order_b @
            [(''id'', VStr ''64b7f0a1c2d3e4f5a6b7c8da''), (''customer_name'', VNull),
             (''installer_name'', VNull)],
          Order_dump order_c @
            [(''id'', VStr ''64b7f0a1c2d3e4f5a6b7c8db''), (''customer_name'', VNull),
             (''installer_name'', VNull)]] \<and>
   ref_unmatched (listing_db ''customer'') (Some (customer_id order_b)) \<and>
   ref_unmatched (listing_db ''customer'') (Some (customer_id order_c)) \<and>
   ref_unmatched (listing_db ''installer'') (installer_id order_c)"
proof -
  have sel: "selected_orders None None listing_db =
      map (\<lambda>(k, p). stored_order k p) [(id1, order_a), (id2, order_b), (id3, order_c)]"
    by (simp add: selected_orders_def listing_db_def)
  have dec: "list_all (\<lambda>(k, p). ref_decodable (Some (customer_id p)) \<and>
                            ref_decodable (installer_id p))
      [(id1, order_a), (id2, order_b), (id3, order_c)]"
    by (simp add: ref_decodable_def order_a_def order_b_def order_c_def example_ids)
  have cust: "listing_db ''customer'' =
      [[(''_id'', VOid id2), (''name'', VStr ''Anna''), (''company'', VNull)]]"
    and inst: "listing_db ''installer'' = []"
    by (simp_all add: listing_db_def empty_db_def)
  have names:
    "ref_name (listing_db ''customer'') (Some (customer_id order_a)) = VStr ''Anna''"
    "ref_name (listing_db ''customer'') (Some (customer_id order_b)) = VNull"
    "ref_name (listing_db ''customer'') (Some (customer_id order_c)) = VNull"
    "ref_name (listing_db ''installer'') (installer_id order_a) = VNull"
    "ref_name (listing_db ''installer'') (installer_id order_b) = VNull"
    "ref_name (listing_db ''installer'') (installer_id order_c) = VNull"
    unfolding cust inst
    by (simp_all add: ref_name_def order_a_def order_b_def order_c_def example_ids
        find_one_def name_of_def id2_def id3_def)
  have un:
    "ref_unmatched (listing_db ''customer'') (Some (customer_id order_b))"
    "ref_unmatched (listing_db ''customer'') (Some (customer_id order_c))"
    "ref_unmatched (listing_db ''installer'') (installer_id order_c)"
    unfolding cust inst
    by (simp_all add: ref_unmatched_def order_b_def order_c_def example_ids find_one_def
        id2_def id3_def)
  from list_orders_unmatched_refs [OF sel dec, where ops = exact and cfold = latin1_fold]
  have "list_orders exact latin1_fold None None listing_db =
      Inr (map (\<lambda>(k, p). listed_order listing_db k p)
             [(id1, order_a), (id2, order_b), (id3, order_c)])"
    by blast
  then show ?thesis
    using un by (simp add: listed_order_def names id1_def id2_def id3_def)
qed

text \<open>
  The claim as stated fails on a reference that does not decode. The order was created
  with the \<^verbatim>\<open>customer_id\<close> \<^verbatim>\<open>abc\<close>, which the schema accepts and which matches no customer;
  listing the orders then raises the 400 of \<^verbatim>\<open>oid\<close> instead of returning the order with a
  null \<^verbatim>\<open>customer_name\<close>.
\<close>

theorem list_orders_malformed_ref_counterexample:
  "fst (create_order exact id1 order_malformed_customer empty_db) =
     Inr [(''id'', VStr ''64b7f0a1c2d3e4f5a6b7c8d9''), (''total'', VNum 0)] \<and>
   malformed_db ''customer'' = [] \<and>
   list_orders exact latin1_fold None None malformed_db = Inl (HTTPException 400 ''Ogiltigt ID'')"
proof -
  have db: "malformed_db ''order'' =
     [[(''_id'', VOid id1), (''customer_id'', VStr ''abc''),
       (''installer_id'', VNull), (''items'', VList []), (''status'', VStr ''ny''),
       (''scheduled_date'', VNull), (''total'', VNum 0), (''notes'', VNull)]]"
    and c: "malformed_db ''customer'' = []"
    using round2_int [of 0]
    by (simp_all add: malformed_db_def create_order_def create_document_def
        order_malformed_customer_def Order_dump_def opt_val_def empty_db_def exact_def)
  have r: "fst (create_order exact id1 order_malformed_customer empty_db) =
     Inr [(''id'', VStr ''64b7f0a1c2d3e4f5a6b7c8d9''), (''total'', VNum 0)]"
    using round2_int [of 0]
    by (simp add: create_order_def create_document_def order_malformed_customer_def
        opt_val_def exact_def id1_def)
  have "list_orders exact latin1_fold None None malformed_db =
      Inl (HTTPException 400 ''Ogiltigt ID'')"
    by (simp add: list_orders_def get_documents_def db enrich_def lookup_ref_def oid_def
        example_ids)
  with r c show ?thesis by blast
qed

section \<open>Listing customers\<close>

lemma literal_not_dot: "\<not> regex_meta c \<Longrightarrow> c \<noteq> CHR ''.''"
  by (auto simp: regex_meta_def)

lemma regex_here_literal:
  "list_all (\<lambda>c. \<not> regex_meta c) p \<Longrightarrow>
   regex_here cfold p s = prefix (map cfold p) (map cfold s)"
  by (induction cfold p s rule: regex_here.induct) (auto simp: regex_char_def literal_not_dot)

lemma regex_search_literal:
  "list_all (\<lambda>c. \<not> regex_meta c) p \<Longrightarrow>
   regex_search cfold p s = sublist (map cfold p) (map cfold s)"
proof (induction s)
  case Nil
  then show ?case by (cases p) simp_all
next
  case (Cons c s)
  then show ?case
    using regex_here_literal [of p cfold "c # s"] by (simp add: sublist_Cons_right)
qed

lemma literal_modelled: "list_all (\<lambda>c. \<not> regex_meta c) p \<Longrightarrow> regex_modelled p"
  by (induction p) (simp_all add: regex_modelled_def)

lemma matches_literal:
  "list_all (\<lambda>c. \<not> regex_meta c) q \<Longrightarrow>
   matches cfold d (RegexI f q) = field_contains cfold q d f"
  by (simp add: field_contains_def regex_search_literal split: option.splits val.splits)

lemma list_customers_matching:
  assumes "case q of None \<Rightarrow> True | Some s \<Rightarrow> s \<noteq> [] \<and> list_all (\<lambda>c. \<not> regex_meta c) s"
  shows "list_customers ops cfold q db = serialize_all ops (customers_matching cfold q db)"
proof (cases q)
  case None
  then show ?thesis
    by (simp add: list_customers_def get_documents_def customers_matching_def)
next
  case (Some s)
  with assms have ne: "s \<noteq> []" and lit: "list_all (\<lambda>c. \<not> regex_meta c) s" by simp_all
  have m: "regex_modelled s" using lit by (rule literal_modelled)
  have "get_documents cfold ''customer'' [Or [RegexI ''name'' s, RegexI ''company'' s]] db =
      Inr (customers_matching cfold (Some s) db)"
    using m
    by (simp add: get_documents_def customers_matching_def matches_literal [OF lit]
        del: matches.simps(2))
  with Some ne show ?thesis by (simp add: list_customers_def)
qed

lemma serialize_all_iff:
  "serialize_all ops ds = Inr out \<longleftrightarrow> list_all2 (\<lambda>d d'. serialize ops d = Inr d') ds out"
proof (induction ds arbitrary: out)
  case Nil
  then show ?case by auto
next
  case (Cons d ds)
  show ?case
  proof (cases "serialize ops d")
    case (Inl e)
    then show ?thesis by (auto simp: list_all2_Cons1)
  next
    case (Inr d')
    show ?thesis
    proof (cases "serialize_all ops ds")
      case (Inl e)
      with Inr Cons.IH show ?thesis by (auto simp: list_all2_Cons1)
    next
      case r: (Inr ds')
      with Inr Cons.IH show ?thesis by (auto simp: list_all2_Cons1)
    qed
  qed
qed

lemma serialize_no_items:
  "map_of d ''items'' = None \<Longrightarrow> serialize ops d = Inr (external_record ops d)"
  by (simp add: serialize_def external_record_def update_conv' delete_conv' Let_def
      split: option.splits)

lemma serialize_all_no_items:
  "list_all (\<lambda>d. map_of d ''items'' = None) ds \<Longrightarrow>
   serialize_all ops ds = Inr (map (external_record ops) ds)"
  by (induction ds) (simp_all add: serialize_no_items)

text \<open>
  Claim C6, as amended. Let the filter of \<^verbatim>\<open>list_customers\<close> be absent, or a text that is
  not empty and has no regular-expression metacharacter (and no null character). Then the listing returns a list
  exactly when it is, record by record and in order, the serialized form of the selected
  customers: all customers without a filter, otherwise those whose \<^verbatim>\<open>name\<close> or \<^verbatim>\<open>company\<close>
  contains the filter up to the store's case folding. When no selected customer has an
  \<^verbatim>\<open>items\<close> field, the listing does return, and each record is the customer with its
  identifier as text under \<^verbatim>\<open>id\<close>.
\<close>

theorem list_customers_search:
  assumes "case q of None \<Rightarrow> True | Some s \<Rightarrow> s \<noteq> [] \<and> list_all (\<lambda>c. \<not> regex_meta c) s"
  shows "(list_customers ops cfold q db = Inr out \<longleftrightarrow>
            list_all2 (\<lambda>d d'. serialize ops d = Inr d') (customers_matching cfold q db) out) \<and>
         (list_all (\<lambda>d. map_of d ''items'' = None) (customers_matching cfold q db) \<longrightarrow>
            list_customers ops cfold q db =
              Inr (map (external_record ops) (customers_matching cfold q db)))"
  using list_customers_matching [OF assms, of ops cfold db]
  by (simp add: serialize_all_iff serialize_all_no_items)

lemma latin1_fold_examples:
  "map latin1_fold ''Smith'' = ''smith''"
  "map latin1_fold ''smith'' = ''smith''"
  "map latin1_fold ''sm.th'' = ''sm.th''"
  "map latin1_fold ''Anna'' = ''anna''"
  "map latin1_fold ''Blacksmiths AB'' = ''blacksmiths ab''"
  "map latin1_fold [CHR 0xC5, CHR ''s'', CHR ''a''] = [CHR 0xE5, CHR ''s'', CHR ''a'']"
  "map latin1_fold [CHR 0xE5, CHR ''s'', CHR ''a''] = [CHR 0xE5, CHR ''s'', CHR ''a'']"
  by (simp_all add: latin1_fold_def Let_def char_of_def bit_Suc_0_iff)

lemma customer_db_customers:
  "customer_db ''customer'' =
     [[(''_id'', VOid id1), (''name'', VStr ''Smith''), (''company'', VNull)],
      [(''_id'', VOid id2), (''name'', VStr ''Anna''), (''company'', VStr ''Blacksmiths AB'')],
      [(''_id'', VOid id3), (''name'', VStr [CHR 0xC5, CHR ''s'', CHR ''a'']),
       (''company'', VNull)]]"
  by (simp add: customer_db_def)

theorem list_customers_search_witness:
  "list_customers exact latin1_fold (Some ''smith'') customer_db =
     Inr [[(''name'', VStr ''Smith''), (''company'', VNull),
           (''id'', VStr ''64b7f0a1c2d3e4f5a6b7c8d9'')],
          [(''name'', VStr ''Anna''), (''company'', VStr ''Blacksmiths AB''),
           (''id'', VStr ''64b7f0a1c2d3e4f5a6b7c8da'')]] \<and>
   list_customers exact latin1_fold (Some [CHR 0xE5, CHR ''s'', CHR ''a'']) customer_db =
     Inr [[(''name'', VStr [CHR 0xC5, CHR ''s'', CHR ''a'']), (''company'', VNull),
           (''id'', VStr ''64b7f0a1c2d3e4f5a6b7c8db'')]]"
proof -
  have h1: "case Some ''smith'' of None \<Rightarrow> True
            | Some s \<Rightarrow> s \<noteq> [] \<and> list_all (\<lambda>c. \<not> regex_meta c) s"
    by (simp add: regex_meta_def)
  have h2: "case Some [CHR 0xE5, CHR ''s'', CHR ''a''] of None \<Rightarrow> True
            | Some s \<Rightarrow> s \<noteq> [] \<and> list_all (\<lambda>c. \<not> regex_meta c) s"
    by (simp add: regex_meta_def)
  have m1: "customers_matching latin1_fold (Some ''smith'') customer_db =
     [[(''_id'', VOid id1), (''name'', VStr ''Smith''), (''company'', VNull)],
      [(''_id'', VOid id2), (''name'', VStr ''Anna''), (''company'', VStr ''Blacksmiths AB'')]]"
    unfolding customers_matching_def customer_db_customers
    by (simp add: field_contains_def latin1_fold_def Let_def char_of_def bit_Suc_0_iff
        sublist_Cons_right prefix_code)
  have m2: "customers_matching latin1_fold (Some [CHR 0xE5, CHR ''s'', CHR ''a'']) customer_db =
     [[(''_id'', VOid id3), (''name'', VStr [CHR 0xC5, CHR ''s'', CHR ''a'']),
       (''company'', VNull)]]"
    unfolding customers_matching_def customer_db_customers
    by (simp add: field_contains_def latin1_fold_def Let_def char_of_def bit_Suc_0_iff
        sublist_Cons_right prefix_code)
  from list_customers_search [OF h1, where ops = exact and cfold = latin1_fold
      and db = customer_db]
  have r1: "list_customers exact latin1_fold (Some ''smith'') customer_db =
      Inr (map (external_record exact)
             (customers_matching latin1_fold (Some ''smith'') customer_db))"
    unfolding m1 by simp
  from list_customers_search [OF h2, where ops = exact and cfold = latin1_fold
      and db = customer_db]
  have r2: "list_customers exact latin1_fold (Some [CHR 0xE5, CHR ''s'', CHR ''a'']) customer_db =
      Inr (map (external_record exact)
             (customers_matching latin1_fold (Some [CHR 0xE5, CHR ''s'', CHR ''a''])
                customer_db))"
    unfolding m2 by simp
  show ?thesis
    unfolding r1 r2 m1 m2
    by (simp add: external_record_def id1_def id2_def id3_def)
qed

text \<open>
  The claim as stated takes \<^verbatim>\<open>q\<close> as a literal text. The filter \<^verbatim>\<open>sm.th\<close> is contained in
  no name and no company of the three customers, yet the listing returns Smith and the
  customer of Blacksmiths AB: the dot is read as a wildcard.
\<close>

theorem list_customers_regex_counterexample:
  "customers_matching latin1_fold (Some ''sm.th'') customer_db = [] \<and>
   list_customers exact latin1_fold (Some ''sm.th'') customer_db =
     Inr [[(''name'', VStr ''Smith''), (''company'', VNull),
           (''id'', VStr ''64b7f0a1c2d3e4f5a6b7c8d9'')],
          [(''name'', VStr ''Anna''), (''company'', VStr ''Blacksmiths AB''),
           (''id'', VStr ''64b7f0a1c2d3e4f5a6b7c8da'')]]"
proof -
  have a: "customers_matching latin1_fold (Some ''sm.th'') customer_db = []"
    unfolding customers_matching_def customer_db_customers
    by (simp add: field_contains_def latin1_fold_def Let_def char_of_def bit_Suc_0_iff
        sublist_Cons_right prefix_code)
  have g: "get_documents latin1_fold ''customer''
       [Or [RegexI ''name'' ''sm.th'', RegexI ''company'' ''sm.th'']] customer_db =
     Inr [[(''_id'', VOid id1), (''name'', VStr ''Smith''), (''company'', VNull)],
          [(''_id'', VOid id2), (''name'', VStr ''Anna''), (''company'', VStr ''Blacksmiths AB'')]]"
    unfolding get_documents_def customer_db_customers
    by (simp add: regex_modelled_def regex_meta_def regex_char_def latin1_fold_def Let_def
        char_of_def bit_Suc_0_iff)
  have b: "list_customers exact latin1_fold (Some ''sm.th'') customer_db =
     Inr [[(''name'', VStr ''Smith''), (''company'', VNull),
           (''id'', VStr ''64b7f0a1c2d3e4f5a6b7c8d9'')],
          [(''name'', VStr ''Anna''), (''company'', VStr ''Blacksmiths AB''),
           (''id'', VStr ''64b7f0a1c2d3e4f5a6b7c8da'')]]"
    by (simp add: list_customers_def g) (simp add: serialize_def id1_def id2_def)
  from a b show ?thesis by blast
qed

section \<open>Empty query parameters\<close>

lemma enrich_all_iff:
  "enrich_all ops db ds = Inr out \<longleftrightarrow> list_all2 (\<lambda>d d'. enrich ops db d = Inr d') ds out"
proof (induction ds arbitrary: out)
  case Nil
  then show ?case by auto
next
  case (Cons d ds)
  show ?case
  proof (cases "enrich ops db d")
    case (Inl e)
    then show ?thesis by (auto simp: list_all2_Cons1)
  next
    case (Inr d')
    show ?thesis
    proof (cases "enrich_all ops db ds")
      case (Inl e)
      with Inr Cons.IH show ?thesis by (auto simp: list_all2_Cons1)
    next
      case r: (Inr ds')
      with Inr Cons.IH show ?thesis by (auto simp: list_all2_Cons1)
    qed
  qed
qed

text \<open>
  Claim C10. An empty text as a query parameter is no filter. \<^verbatim>\<open>list_orders\<close> with an empty
  \<^verbatim>\<open>status\<close> or an empty \<^verbatim>\<open>customer_id\<close> answers as it does without that parameter. With
  both empty it returns a list exactly when that list holds, in order, the enriched record
  of every order of the collection, whatever its status and customer. \<^verbatim>\<open>list_customers\<close>
  with an empty \<^verbatim>\<open>q\<close> answers as without \<^verbatim>\<open>q\<close>, and returns a list exactly when that list
  holds, in order, the serialized record of every customer.
\<close>

theorem empty_query_is_no_filter:
  "list_orders ops cfold (Some []) c db = list_orders ops cfold None c db \<and>
   list_orders ops cfold s (Some []) db = list_orders ops cfold s None db \<and>
   (list_orders ops cfold (Some []) (Some []) db = Inr out \<longleftrightarrow>
      list_all2 (\<lambda>d d'. enrich ops db d = Inr d') (db ''order'') out) \<and>
   list_customers ops cfold (Some []) db = list_customers ops cfold None db \<and>
   (list_customers ops cfold (Some []) db = Inr out' \<longleftrightarrow>
      list_all2 (\<lambda>d d'. serialize ops d = Inr d') (db ''customer'') out')"
proof -
  have o: "list_orders ops cfold (Some []) (Some []) db = enrich_all ops db (db ''order'')"
    by (simp add: list_orders_def get_documents_def)
  have cu: "list_customers ops cfold (Some []) db = serialize_all ops (db ''customer'')"
    by (simp add: list_customers_def get_documents_def)
  show ?thesis
    unfolding o cu enrich_all_iff serialize_all_iff
    by (simp add: list_orders_def list_customers_def get_documents_def)
qed

theorem empty_query_is_no_filter_witness:
  "map status [order_a, order_b, order_c] = [''ny'', [], ''klar''] \<and>
   list_orders exact latin1_fold (Some []) (Some []) listing_db =
     Inr [listed_order listing_db id1 order_a, listed_order listing_db id2 order_b,
          listed_order listing_db id3 order_c] \<and>
   list_customers exact latin1_fold (Some []) customer_db =
     Inr [[(''name'', VStr ''Smith''), (''company'', VNull),
           (''id'', VStr ''64b7f0a1c2d3e4f5a6b7c8d9'')],
          [(''name'', VStr ''Anna''), (''company'', VStr ''Blacksmiths AB''),
           (''id'', VStr ''64b7f0a1c2d3e4f5a6b7c8da'')],
          [(''name'', VStr [CHR 0xC5, CHR ''s'', CHR ''a'']), (''company'', VNull),
           (''id'', VStr ''64b7f0a1c2d3e4f5a6b7c8db'')]]"
proof -
  have st: "map status [order_a, order_b, order_c] = [''ny'', [], ''klar'']"
    by (simp add: order_a_def order_b_def order_c_def)
  have dec: "ref_decodable (Some (customer_id order_a))" "ref_decodable (installer_id order_a)"
    "ref_decodable (Some (customer_id order_b))" "ref_decodable (installer_id order_b)"
    "ref_decodable (Some (customer_id order_c))" "ref_decodable (installer_id order_c)"
    by (simp_all add: ref_decodable_def order_a_def order_b_def order_c_def example_ids)
  have ords: "listing_db ''order'' =
      [stored_order id1 order_a, stored_order id2 order_b, stored_order id3 order_c]"
    by (simp add: listing_db_def)
  have e: "list_all2 (\<lambda>d d'. enrich exact listing_db d = Inr d') (listing_db ''order'')
      [listed_order listing_db id1 order_a, listed_order listing_db id2 order_b,
       listed_order listing_db id3 order_c]"
    unfolding ords by (simp add: enrich_stored_order dec)
  have s: "list_all2 (\<lambda>d d'. serialize exact d = Inr d') (customer_db ''customer'')
      [[(''name'', VStr ''Smith''), (''company'', VNull),
        (''id'', VStr ''64b7f0a1c2d3e4f5a6b7c8d9'')],
       [(''name'', VStr ''Anna''), (''company'', VStr ''Blacksmiths AB''),
        (''id'', VStr ''64b7f0a1c2d3e4f5a6b7c8da'')],
       [(''name'', VStr [CHR 0xC5, CHR ''s'', CHR ''a'']), (''company'', VNull),
        (''id'', VStr ''64b7f0a1c2d3e4f5a6b7c8db'')]]"
    unfolding customer_db_customers
    by (simp add: serialize_def id1_def id2_def id3_def)
  from empty_query_is_no_filter [where ops = exact and cfold = latin1_fold
      and db = listing_db
      and out = "[listed_order listing_db id1 order_a, listed_order listing_db id2 order_b,
                  listed_order listing_db id3 order_c]"] e
  have a: "list_orders exact latin1_fold (Some []) (Some []) listing_db =
     Inr [listed_order listing_db id1 order_a, listed_order listing_db id2 order_b,
          listed_order listing_db id3 order_c]"
    by blast
  from empty_query_is_no_filter [where ops = exact and cfold = latin1_fold
      and db = customer_db
      and out' = "[[(''name'', VStr ''Smith''), (''company'', VNull),
        (''id'', VStr ''64b7f0a1c2d3e4f5a6b7c8d9'')],
       [(''name'', VStr ''Anna''), (''company'', VStr ''Blacksmiths AB''),
        (''id'', VStr ''64b7f0a1c2d3e4f5a6b7c8da'')],
       [(''name'', VStr [CHR 0xC5, CHR ''s'', CHR ''a'']), (''company'', VNull),
        (''id'', VStr ''64b7f0a1c2d3e4f5a6b7c8db'')]]"] s
  have b: "list_customers exact latin1_fold (Some []) customer_db =
     Inr [[(''name'', VStr ''Smith''), (''company'', VNull),
           (''id'', VStr ''64b7f0a1c2d3e4f5a6b7c8d9'')],
          [(''name'', VStr ''Anna''), (''company'', VStr ''Blacksmiths AB''),
           (''id'', VStr ''64b7f0a1c2d3e4f5a6b7c8da'')],
          [(''name'', VStr [CHR 0xC5, CHR ''s'', CHR ''a'']), (''company'', VNull),
           (''id'', VStr ''64b7f0a1c2d3e4f5a6b7c8db'')]]"
    by blast
  from st a b show ?thesis by blast
qed

end
